theory Spec2Isabelle
  imports Main "HOL-Library.Sublist"
begin

section \<open>The timer command line client (timer\_cli/main.py)\<close>

text \<open>
  The client has three commands, \<open>job submit\<close>, \<open>job list\<close> and \<open>job status\<close>.
  Each one parses its arguments (click), asks the token provider for an access token,
  sends one HTTP request (requests) and prints the answer.  The model below follows
  main.py function by function.  A text is a list of characters.  Output streams, the
  requests sent and the calls of the
  token provider are an explicit state; every raise and every \<open>sys.exit\<close> is a value
  of the exception type; the libraries the module calls (click's parser and renderer,
  requests, json, urllib.parse, the token provider of timer\_cli.auth) are parameters
  collected in one record.
\<close>

subsection \<open>Python strings\<close>

definition nl :: string where
  "nl = [CHR 0x0A]"

definition apostrophe :: char where
  "apostrophe = CHR 0x27"

definition dquote :: char where
  "dquote = CHR 0x22"

definition py_lstrip :: "string \<Rightarrow> string \<Rightarrow> string" where
  \<comment> \<open>\<open>s.lstrip(chars)\<close>: drops every leading character that is in \<open>chars\<close>.\<close>
  "py_lstrip chars s = dropWhile (\<lambda>c. c \<in> set chars) s"

definition py_rstrip :: "string \<Rightarrow> string \<Rightarrow> string" where
  \<comment> \<open>\<open>s.rstrip(chars)\<close>\<close>
  "py_rstrip chars s = rev (dropWhile (\<lambda>c. c \<in> set chars) (rev s))"

definition py_strip :: "string \<Rightarrow> string \<Rightarrow> string" where
  \<comment> \<open>\<open>s.strip(chars)\<close>\<close>
  "py_strip chars s = py_rstrip chars (py_lstrip chars s)"

function py_remove :: "string \<Rightarrow> string \<Rightarrow> string" where
  \<comment> \<open>\<open>s.replace(old, '')\<close> for a non-empty \<open>old\<close>: the occurrences of \<open>old\<close> are
      removed from left to right, without overlap.\<close>
  "py_remove old [] = []"
| "py_remove old (c # cs) =
     (if old \<noteq> [] \<and> prefix old (c # cs)
      then py_remove old (drop (length old) (c # cs))
      else c # py_remove old cs)"
  by pat_completeness auto
termination
  by (relation "measure (\<lambda>(old, s). length s)") (auto simp: neq_Nil_conv)

fun str_nat :: "nat \<Rightarrow> string" where
  \<comment> \<open>\<open>str(n)\<close> of a non-negative integer: its decimal digits.\<close>
  "str_nat n =
     (if n < 10 then [''0123456789'' ! n]
      else str_nat (n div 10) @ [''0123456789'' ! (n mod 10)])"

definition str_int :: "int \<Rightarrow> string" where
  "str_int i = (if i < 0 then CHR ''-'' # str_nat (nat (- i)) else str_nat (nat i))"

definition is_decimal_digit :: "char \<Rightarrow> bool" where
  "is_decimal_digit c = (c \<in> set ''0123456789'')"

definition decimal_value :: "string \<Rightarrow> nat" where
  \<comment> \<open>\<open>int(s)\<close> of a string of decimal digits\<close>
  "decimal_value s = foldl (\<lambda>a c. 10 * a + (of_char c - 48)) 0 s"

definition upper_char :: "char \<Rightarrow> char" where
  \<comment> \<open>\<open>c.upper()\<close> of an ASCII character\<close>
  "upper_char c =
     (case map_of (zip ''abcdefghijklmnopqrstuvwxyz'' ''ABCDEFGHIJKLMNOPQRSTUVWXYZ'') c of
        None \<Rightarrow> c
      | Some d \<Rightarrow> d)"

definition py_upper :: "string \<Rightarrow> string" where
  \<comment> \<open>\<open>s.upper()\<close>\<close>
  "py_upper s = map upper_char s"

subsection \<open>Exceptions\<close>

text \<open>
  click's usage errors form a class hierarchy: \<open>MissingParameter\<close> is a
  \<open>BadParameter\<close>; \<open>BadParameter\<close>, \<open>BadOptionUsage\<close> and \<open>BadArgumentUsage\<close> are
  \<open>UsageError\<close>s.  \<open>OtherUsageError\<close> stands for a \<open>UsageError\<close> of no subclass the
  module names (an unknown option, an unexpected extra argument).  A
  \<open>BadOptionUsage\<close> carries the option's name.
\<close>

datatype usage_class =
    MissingParameter
  | BadParameter
  | BadArgumentUsage
  | BadOptionUsage string
  | OtherUsageError

datatype exn =
    UsageError usage_class string   \<comment> \<open>click.UsageError and subclasses, with the message\<close>
  | Exit int                        \<comment> \<open>click.exceptions.Exit, raised by \<open>ctx.exit(code)\<close>\<close>
  | SystemExit int                  \<comment> \<open>raised by \<open>sys.exit(code)\<close>\<close>
  | RequestException string         \<comment> \<open>requests.RequestException and subclasses\<close>
  | ValueError string               \<comment> \<open>ValueError and subclasses (json.JSONDecodeError)\<close>
  | TypeError string
  | OtherException string           \<comment> \<open>any other exception, by its text\<close>

fun str_exn :: "exn \<Rightarrow> string" where
  \<comment> \<open>\<open>str(e)\<close>, as an f-string renders an exception\<close>
  "str_exn (UsageError k m) = m"
| "str_exn (Exit c) = str_int c"
| "str_exn (SystemExit c) = str_int c"
| "str_exn (RequestException m) = m"
| "str_exn (ValueError m) = m"
| "str_exn (TypeError m) = m"
| "str_exn (OtherException m) = m"

definition exit_code :: "exn \<Rightarrow> int" where
  \<comment> \<open>the attribute \<open>exit_code\<close>: 2 for every click.UsageError\<close>
  "exit_code e = (case e of UsageError k m \<Rightarrow> 2 | Exit c \<Rightarrow> c | _ \<Rightarrow> 1)"

subsection \<open>Requests, responses and the state of one run\<close>

datatype 'j pyval = PStr string | PInt int | PJson 'j

datatype http_verb = GET | POST

record 'j request =
  verb :: http_verb
  url :: string
  json_kw :: "(string \<times> 'j pyval) list option"
  headers_kw :: "(string \<times> string) list"
  timeout_kw :: nat

text \<open>
  Of a \<open>requests.Response\<close> the module reads the attribute \<open>status_code\<close> and calls
  \<open>json()\<close>, which returns the decoded body or raises.
\<close>

record 'j response =
  status_code :: int
  json :: "exn + 'j"

record 'j world =
  stdout :: string
  stderr :: string
  http_log :: "'j request list"
  token_log :: "string option list"

definition world0 :: "'j world" where
  "world0 = \<lparr>stdout = [], stderr = [], http_log = [], token_log = []\<rparr>"

type_synonym ('a, 'j) prog = "'j world \<Rightarrow> (exn + 'a) \<times> 'j world"

definition ret :: "'a \<Rightarrow> ('a, 'j) prog" where
  "ret x = (\<lambda>w. (Inr x, w))"

definition raise :: "exn \<Rightarrow> ('a, 'j) prog" where
  "raise e = (\<lambda>w. (Inl e, w))"

definition lift :: "exn + 'a \<Rightarrow> ('a, 'j) prog" where
  \<comment> \<open>a call that has no effect on the state: it returns or raises\<close>
  "lift r = (\<lambda>w. (r, w))"

definition bnd :: "('a, 'j) prog \<Rightarrow> ('a \<Rightarrow> ('b, 'j) prog) \<Rightarrow> ('b, 'j) prog" where
  \<comment> \<open>statement sequencing: an exception skips the rest\<close>
  "bnd m f = (\<lambda>w. case m w of (Inl e, w') \<Rightarrow> (Inl e, w') | (Inr x, w') \<Rightarrow> f x w')"

definition try_except ::
  "('a, 'j) prog \<Rightarrow> (exn \<Rightarrow> ('a, 'j) prog option) \<Rightarrow> ('a, 'j) prog" where
  \<comment> \<open>\<open>try: m except ...\<close>: the handler answers \<open>None\<close> for an exception that no
      \<open>except\<close> clause matches\<close>
  "try_except m h =
     (\<lambda>w. case m w of
        (Inl e, w') \<Rightarrow> (case h e of None \<Rightarrow> (Inl e, w') | Some k \<Rightarrow> k w')
      | (Inr x, w') \<Rightarrow> (Inr x, w'))"

definition echo :: "string \<Rightarrow> (unit, 'j) prog" where
  \<comment> \<open>\<open>click.echo(message)\<close>: the message and a newline on standard output\<close>
  "echo message = (\<lambda>w. (Inr (), w\<lparr>stdout := stdout w @ message @ nl\<rparr>))"

definition echo_err :: "string \<Rightarrow> (unit, 'j) prog" where
  \<comment> \<open>\<open>click.echo(message, err=True)\<close>\<close>
  "echo_err message = (\<lambda>w. (Inr (), w\<lparr>stderr := stderr w @ message @ nl\<rparr>))"

definition sys_exit :: "int \<Rightarrow> ('a, 'j) prog" where
  "sys_exit c = raise (SystemExit c)"

definition ctx_exit :: "int \<Rightarrow> (unit, 'j) prog" where
  \<comment> \<open>click's \<open>Context.exit(code=0)\<close> raises \<open>Exit(code)\<close>; it never returns\<close>
  "ctx_exit c = raise (Exit c)"

subsection \<open>The collaborators\<close>

record ParseResult =
  scheme :: string
  netloc :: string
  path :: string
  params :: string
  query :: string
  fragment :: string

datatype job_command = Submit_command | List_command | Status_command

text \<open>
  What the module calls and does not define.  \<open>get_access_token\<close> is the token
  provider of timer\_cli.auth; \<open>http\<close> is the outcome of \<open>requests.get\<close> and
  \<open>requests.post\<close> for a request; \<open>json_loads\<close>, \<open>json_dumps\<close>, \<open>urlparse\<close> and
  \<open>geturl\<close> are the standard library's; \<open>now\<close> is \<open>datetime.datetime.now()\<close> and
  \<open>isoformat\<close> the method of that name; \<open>show_text e b\<close> is the text that click's
  \<open>e.show()\<close> writes to the error stream, \<open>b\<close> telling whether \<open>e.cmd\<close> was set to
  \<open>None\<close> before (the hint line is left out then); \<open>format_help c\<close> is what the formatter
  holds after \<open>format_help_text\<close>, \<open>format_options\<close> and \<open>format_epilog\<close> of
  command \<open>c\<close>; \<open>int16_other\<close> is \<open>int(s, 16)\<close> on a string that is not made of
  hexadecimal digits only (a sign, a \<open>0x\<close> prefix, underscores, blanks): the integer,
  or the message of the ValueError.
\<close>

record ('j, 'd) env =
  get_access_token :: "string option \<Rightarrow> exn + string"
  http :: "'j request \<Rightarrow> exn + 'j response"
  json_loads :: "string \<Rightarrow> exn + 'j"
  json_dumps :: "'j \<Rightarrow> string"
  urlparse :: "string \<Rightarrow> exn + ParseResult"
  geturl :: "ParseResult \<Rightarrow> string"
  now :: "'d"
  isoformat :: "'d \<Rightarrow> string"
  show_text :: "exn \<Rightarrow> bool \<Rightarrow> string"
  format_help :: "job_command \<Rightarrow> string"
  int16_other :: "string \<Rightarrow> string + nat"

subsection \<open>uuid.UUID, the type of the argument of \<open>status\<close>\<close>

text \<open>
  The standard library's class, as far as the command uses it: the constructor called
  with a text (\<open>hex\<close>), and \<open>__str__\<close>.  A UUID is its 128-bit integer.
\<close>

definition is_hexdigit :: "char \<Rightarrow> bool" where
  "is_hexdigit c = (c \<in> set ''0123456789abcdefABCDEF'')"

definition hexdigit_val :: "char \<Rightarrow> nat" where
  "hexdigit_val c =
     (let n = (of_char c :: nat) in
      if 48 \<le> n \<and> n \<le> 57 then n - 48
      else if 97 \<le> n \<and> n \<le> 102 then n - 87
      else n - 55)"

definition hex_val :: "string \<Rightarrow> nat" where
  "hex_val s = foldl (\<lambda>a c. 16 * a + hexdigit_val c) 0 s"

definition py_int16 :: "('j, 'd) env \<Rightarrow> string \<Rightarrow> exn + nat" where
  \<comment> \<open>\<open>int(s, 16)\<close>\<close>
  "py_int16 env s =
     (if s \<noteq> [] \<and> list_all is_hexdigit s then Inr (hex_val s)
      else (case int16_other env s of Inl m \<Rightarrow> Inl (ValueError m) | Inr n \<Rightarrow> Inr n))"

definition UUID :: "('j, 'd) env \<Rightarrow> string \<Rightarrow> exn + nat" where
  \<comment> \<open>\<open>uuid.UUID(hex)\<close>\<close>
  "UUID env hex =
     (let hex1 = py_remove ''uuid:'' (py_remove ''urn:'' hex);
          hex2 = py_remove ''-'' (py_strip ''{}'' hex1)
      in if length hex2 \<noteq> 32
         then Inl (ValueError ''badly formed hexadecimal UUID string'')
         else (case py_int16 env hex2 of
                 Inl e \<Rightarrow> Inl e
               | Inr n \<Rightarrow>
                   if n < 2 ^ 128 then Inr n
                   else Inl (ValueError ''int is out of range (need a 128-bit value)'')))"

definition hex_char :: "nat \<Rightarrow> char" where
  "hex_char d = ''0123456789abcdef'' ! d"

fun to_hex :: "nat \<Rightarrow> string" where
  \<comment> \<open>\<open>'%x' % n\<close>\<close>
  "to_hex n = (if n < 16 then [hex_char n] else to_hex (n div 16) @ [hex_char (n mod 16)])"

definition format_032x :: "nat \<Rightarrow> string" where
  \<comment> \<open>\<open>'%032x' % n\<close>: padded with zeros on the left to 32 characters\<close>
  "format_032x n = replicate (32 - length (to_hex n)) (CHR ''0'') @ to_hex n"

definition UUID_str :: "nat \<Rightarrow> string" where
  \<comment> \<open>\<open>str(u)\<close>: the slices \<open>hex[:8]\<close>, \<open>hex[8:12]\<close>, \<open>hex[12:16]\<close>, \<open>hex[16:20]\<close>,
      \<open>hex[20:]\<close> joined by hyphens\<close>
  "UUID_str n =
     (let hex = format_032x n in
      take 8 hex @ ''-'' @ take 4 (drop 8 hex) @ ''-'' @ take 4 (drop 12 hex) @ ''-''
        @ take 4 (drop 16 hex) @ ''-'' @ drop 20 hex)"

definition is_lower_hexdigit :: "char \<Rightarrow> bool" where
  "is_lower_hexdigit c = (c \<in> set ''0123456789abcdef'')"

definition canonical_uuid_text :: "string \<Rightarrow> bool" where
  \<comment> \<open>the form 8-4-4-4-12 of lower-case hexadecimal digits\<close>
  "canonical_uuid_text t =
     (length t = 36
      \<and> list_all is_lower_hexdigit (take 8 t) \<and> t ! 8 = CHR ''-''
      \<and> list_all is_lower_hexdigit (take 4 (drop 9 t)) \<and> t ! 13 = CHR ''-''
      \<and> list_all is_lower_hexdigit (take 4 (drop 14 t)) \<and> t ! 18 = CHR ''-''
      \<and> list_all is_lower_hexdigit (take 4 (drop 19 t)) \<and> t ! 23 = CHR ''-''
      \<and> list_all is_lower_hexdigit (drop 24 t))"

definition uuid_char :: "char \<Rightarrow> bool" where
  \<comment> \<open>the characters of a canonical UUID text\<close>
  "uuid_char c = (is_lower_hexdigit c \<or> c = CHR ''-'')"

subsection \<open>click's conversion of the declared parameters\<close>

definition fail :: "string \<Rightarrow> exn + 'a" where
  \<comment> \<open>\<open>ParamType.fail(message)\<close> raises \<open>BadParameter(message)\<close>\<close>
  "fail message = Inl (UsageError BadParameter message)"

definition FuncParamType_convert :: "(string \<Rightarrow> exn + 'a) \<Rightarrow> string \<Rightarrow> exn + 'a" where
  \<comment> \<open>A parameter declared with \<open>type=f\<close> for a callable \<open>f\<close> is converted by
      \<open>f(value)\<close>; a ValueError becomes \<open>self.fail(value)\<close>.\<close>
  "FuncParamType_convert func v =
     (case func v of
        Inl (ValueError m) \<Rightarrow> fail v
      | Inl e \<Rightarrow> Inl e
      | Inr x \<Rightarrow> Inr x)"

definition status_make_context :: "('j, 'd) env \<Rightarrow> string option \<Rightarrow> exn + nat" where
  \<comment> \<open>click's \<open>make_context\<close> for \<open>status\<close>, declared with the one argument
      \<open>job_id\<close> of \<open>type=uuid.UUID\<close>: the argument is required, and its text is
      converted.\<close>
  "status_make_context env job_id_text =
     (case job_id_text of
        None \<Rightarrow> Inl (UsageError MissingParameter [])
      | Some v \<Rightarrow> FuncParamType_convert (UUID env) v)"

subsection \<open>main.py\<close>

definition TIMEOUT :: nat where
  "TIMEOUT = 10"

definition show_exn :: "('j, 'd) env \<Rightarrow> exn \<Rightarrow> bool \<Rightarrow> (unit, 'j) prog" where
  \<comment> \<open>\<open>e.show()\<close>: click writes the error to the error stream\<close>
  "show_exn env e cmd_none = (\<lambda>w. (Inr (), w\<lparr>stderr := stderr w @ show_text env e cmd_none\<rparr>))"

definition show_usage :: "('j, 'd) env \<Rightarrow> job_command \<Rightarrow> (unit, 'j) prog" where
  "show_usage env cmd =
     bnd (echo (py_rstrip nl (format_help env cmd))) (\<lambda>_.
     bnd (ctx_exit 0) (\<lambda>_.
     sys_exit 2))"

definition show_response :: "('j, 'd) env \<Rightarrow> 'j response \<Rightarrow> (unit, 'j) prog" where
  "show_response env response =
     bnd (if status_code response \<ge> 400
          then echo_err (''got response code '' @ str_int (status_code response))
          else ret ()) (\<lambda>_.
     bnd (lift (json response)) (\<lambda>body.
     echo (json_dumps env body)))"

definition handle_requests_exception :: "exn \<Rightarrow> (unit, 'j) prog" where
  "handle_requests_exception e =
     bnd (echo_err (''error in request: '' @ str_exn e)) (\<lambda>_.
     sys_exit 1)"

definition Command_make_context ::
  "('j, 'd) env \<Rightarrow> job_command \<Rightarrow> exn + 'p \<Rightarrow> ('p option, 'j) prog" where
  \<comment> \<open>\<open>Command.make_context\<close>; \<open>parsed\<close> is the outcome of \<open>super().make_context\<close>.
      The function returns the context, or \<open>None\<close> where the source falls off the end
      of an \<open>except\<close> clause.\<close>
  "Command_make_context env cmd parsed =
     (case parsed of
        Inr ctx \<Rightarrow> ret (Some ctx)
      | Inl (UsageError MissingParameter m) \<Rightarrow>
          bnd (show_exn env (UsageError MissingParameter m) True) (\<lambda>_.
          bnd (echo []) (\<lambda>_.
          bnd (show_usage env cmd) (\<lambda>_.
          ret None)))
      | Inl (UsageError OtherUsageError m) \<Rightarrow> raise (UsageError OtherUsageError m)
      | Inl (UsageError k m) \<Rightarrow>
          bnd (show_exn env (UsageError k m) True) (\<lambda>_.
          bnd (echo []) (\<lambda>_.
          bnd (show_usage env cmd) (\<lambda>_.
          sys_exit (exit_code (UsageError k m)))))
      | Inl e \<Rightarrow> raise e)"

definition URL_convert :: "('j, 'd) env \<Rightarrow> string + ParseResult \<Rightarrow> exn + ParseResult" where
  \<comment> \<open>\<open>URL.convert\<close>; the value is a text (\<open>Inl\<close>) or already a tuple (\<open>Inr\<close>)\<close>
  "URL_convert env v =
     (case v of
        Inr parsed \<Rightarrow> Inr parsed
      | Inl text \<Rightarrow>
          (case urlparse env text of
             Inl e \<Rightarrow> Inl e
           | Inr parsed \<Rightarrow>
               if netloc parsed = [] then fail ''incomplete URL''
               else if scheme parsed \<noteq> ''http'' \<and> scheme parsed \<noteq> ''https''
               then fail (''invalid URL scheme ('' @ scheme parsed
                            @ ''). Only HTTP URLs are allowed'')
               else Inr parsed))"

definition call_get_access_token :: "('j, 'd) env \<Rightarrow> string option \<Rightarrow> (string, 'j) prog" where
  "call_get_access_token env token_store =
     (\<lambda>w. (get_access_token env token_store, w\<lparr>token_log := token_log w @ [token_store]\<rparr>))"

definition get_headers :: "('j, 'd) env \<Rightarrow> string option \<Rightarrow> ((string \<times> string) list, 'j) prog" where
  "get_headers env token_store =
     bnd (call_get_access_token env token_store) (\<lambda>access_token.
     ret [(''Authorization'', ''Bearer '' @ access_token)])"

definition requests_call :: "('j, 'd) env \<Rightarrow> 'j request \<Rightarrow> ('j response, 'j) prog" where
  "requests_call env rq = (\<lambda>w. (http env rq, w\<lparr>http_log := http_log w @ [rq]\<rparr>))"

definition requests_post ::
  "('j, 'd) env \<Rightarrow> string \<Rightarrow> (string \<times> 'j pyval) list \<Rightarrow> (string \<times> string) list \<Rightarrow> nat
     \<Rightarrow> ('j response, 'j) prog" where
  "requests_post env u j h t =
     requests_call env \<lparr>verb = POST, url = u, json_kw = Some j, headers_kw = h, timeout_kw = t\<rparr>"

definition requests_get ::
  "('j, 'd) env \<Rightarrow> string \<Rightarrow> (string \<times> string) list \<Rightarrow> nat \<Rightarrow> ('j response, 'j) prog" where
  "requests_get env u h t =
     requests_call env \<lparr>verb = GET, url = u, json_kw = None, headers_kw = h, timeout_kw = t\<rparr>"

definition jobs_url :: string where
  "jobs_url = ''https://sandbox.timer.automate.globus.org/jobs/''"

definition send_and_show ::
  "('j, 'd) env \<Rightarrow> ('j response, 'j) prog \<Rightarrow> (unit, 'j) prog" where
  \<comment> \<open>The tail the three commands share, statement for statement:
      \<open>try: response = requests...(...)\<close>,
      \<open>except requests.RequestException as e: handle_requests_exception(e); return\<close>,
      \<open>show_response(response)\<close>.\<close>
  "send_and_show env call =
     bnd (try_except
            (bnd call (\<lambda>response. ret (Some response)))
            (\<lambda>e. case e of
                    RequestException m \<Rightarrow>
                      Some (bnd (handle_requests_exception e) (\<lambda>_. ret None))
                  | _ \<Rightarrow> None))
         (\<lambda>r. case r of None \<Rightarrow> ret () | Some response \<Rightarrow> show_response env response)"

definition submit ::
  "('j, 'd) env \<Rightarrow> string \<Rightarrow> 'd option \<Rightarrow> int \<Rightarrow> ParseResult \<Rightarrow> string \<Rightarrow> (unit, 'j) prog" where
  "submit env name start interval action_url action_body =
     bnd (try_except
            (bnd (ret (py_strip [dquote] (py_strip [apostrophe] action_body))) (\<lambda>callback_body.
             bnd (lift (json_loads env action_body)) (\<lambda>callback_body.
             ret callback_body)))
            (\<lambda>e. case e of
                    TypeError m \<Rightarrow> Some (raise (UsageError (BadOptionUsage ''action-body'')
                      (''--action-body must parse into valid JSON; got error: '' @ str_exn e)))
                  | ValueError m \<Rightarrow> Some (raise (UsageError (BadOptionUsage ''action-body'')
                      (''--action-body must parse into valid JSON; got error: '' @ str_exn e)))
                  | _ \<Rightarrow> None)) (\<lambda>callback_body.
     bnd (ret (case start of None \<Rightarrow> now env | Some s \<Rightarrow> s)) (\<lambda>start.
     bnd (ret (geturl env action_url)) (\<lambda>callback_url.
     bnd (ret [(''name'', PStr name),
               (''start'', PStr (isoformat env start)),
               (''interval'', PInt interval),
               (''callback_url'', PStr callback_url),
               (''callback_body'', PJson callback_body)]) (\<lambda>req_json.
     bnd (get_headers env None) (\<lambda>headers.
     send_and_show env (requests_post env jobs_url req_json headers TIMEOUT))))))"

definition list_jobs :: "('j, 'd) env \<Rightarrow> (unit, 'j) prog" where
  \<comment> \<open>the command \<open>list\<close>\<close>
  "list_jobs env =
     bnd (get_headers env None) (\<lambda>headers.
     send_and_show env (requests_get env jobs_url headers TIMEOUT))"

definition status :: "('j, 'd) env \<Rightarrow> nat \<Rightarrow> (unit, 'j) prog" where
  "status env job_id =
     bnd (get_headers env None) (\<lambda>headers.
     send_and_show env (requests_get env (jobs_url @ UUID_str job_id) headers TIMEOUT))"

subsection \<open>Running a command: the group \<open>job\<close> and click's \<open>main\<close>\<close>

definition invoke_command ::
  "('j, 'd) env \<Rightarrow> job_command \<Rightarrow> exn + 'p \<Rightarrow> ('p \<Rightarrow> (unit, 'j) prog) \<Rightarrow> (unit, 'j) prog" where
  \<comment> \<open>The group builds the command's context with \<open>cmd.make_context\<close> and, with the
      context, calls the command's function on the converted parameters.\<close>
  "invoke_command env cmd parsed callback =
     bnd (Command_make_context env cmd parsed) (\<lambda>sub_ctx.
     case sub_ctx of
       None \<Rightarrow> raise (OtherException ''NoneType is no context'')
     | Some ps \<Rightarrow> callback ps)"

record 'j finished =
  exit_status :: int
  traceback :: "exn option"
  final :: "'j world"

definition cli_main :: "('j, 'd) env \<Rightarrow> (unit, 'j) prog \<Rightarrow> 'j world \<Rightarrow> 'j finished" where
  \<comment> \<open>\<open>cli()\<close>, click's \<open>main\<close> in standalone mode, and the interpreter's exit: a
      command that returns ends with status 0; a click exception is shown and its
      \<open>exit_code\<close> is the status; \<open>Exit\<close> and \<open>SystemExit\<close> give their code; any other
      exception is not caught, the interpreter prints its traceback and ends with
      status 1.\<close>
  "cli_main env run w =
     (case run w of
        (Inr u, w') \<Rightarrow> \<lparr>exit_status = 0, traceback = None, final = w'\<rparr>
      | (Inl (UsageError k m), w') \<Rightarrow>
          \<lparr>exit_status = exit_code (UsageError k m), traceback = None,
           final = w'\<lparr>stderr := stderr w' @ show_text env (UsageError k m) False\<rparr>\<rparr>
      | (Inl (Exit c), w') \<Rightarrow> \<lparr>exit_status = c, traceback = None, final = w'\<rparr>
      | (Inl (SystemExit c), w') \<Rightarrow> \<lparr>exit_status = c, traceback = None, final = w'\<rparr>
      | (Inl e, w') \<Rightarrow> \<lparr>exit_status = 1, traceback = Some e, final = w'\<rparr>)"

definition job_submit ::
  "('j, 'd) env \<Rightarrow> exn + (string \<times> 'd option \<times> int \<times> ParseResult \<times> string) \<Rightarrow> 'j world
     \<Rightarrow> 'j finished" where
  \<comment> \<open>\<open>job submit\<close>; \<open>parsed\<close> is the outcome of click's \<open>make_context\<close> for the
      declared options: the values of name, start, interval, action\_url and
      action\_body, or the exception raised.\<close>
  "job_submit env parsed =
     cli_main env (invoke_command env Submit_command parsed
       (\<lambda>(name, start, interval, action_url, action_body).
          submit env name start interval action_url action_body))"

definition job_list :: "('j, 'd) env \<Rightarrow> exn + unit \<Rightarrow> 'j world \<Rightarrow> 'j finished" where
  "job_list env parsed =
     cli_main env (invoke_command env List_command parsed (\<lambda>_. list_jobs env))"

definition job_status :: "('j, 'd) env \<Rightarrow> exn + nat \<Rightarrow> 'j world \<Rightarrow> 'j finished" where
  "job_status env parsed =
     cli_main env (invoke_command env Status_command parsed (status env))"

subsection \<open>A concrete run\<close>

text \<open>
  The collaborators at concrete values, for evaluating the commands: a token provider
  that returns \<open>abc\<close>, a transport whose outcome is given, and the standard library's
  answers on the texts that the examples use.
\<close>

datatype jvalue =
    JNull
  | JBool bool
  | JInt int
  | JStr string
  | JArr "jvalue list"
  | JObj "(string \<times> jvalue) list"

definition k1_text :: string where
  \<comment> \<open>the text \<open>{"k": 1}\<close>\<close>
  "k1_text = ''{'' @ [dquote] @ ''k'' @ [dquote] @ '': 1}''"

definition not_found_text :: string where
  \<comment> \<open>the text \<open>{"error": "not found"}\<close>\<close>
  "not_found_text =
     ''{'' @ [dquote] @ ''error'' @ [dquote] @ '': '' @ [dquote] @ ''not found'' @ [dquote] @ ''}''"

definition demo_json_loads :: "string \<Rightarrow> exn + jvalue" where
  \<comment> \<open>\<open>json.loads\<close> on \<open>{"k": 1}\<close> and on \<open>{}\<close>; every other text is answered as
      one that begins with no JSON value, which the other texts of the examples do
      (\<open>'{"k": 1}'\<close> and \<open>not json\<close>)\<close>
  "demo_json_loads s =
     (if s = k1_text then Inr (JObj [(''k'', JInt 1)])
      else if s = ''{}'' then Inr (JObj [])
      else Inl (ValueError ''Expecting value: line 1 column 1 (char 0)''))"

definition demo_json_dumps :: "jvalue \<Rightarrow> string" where
  \<comment> \<open>\<open>json.dumps\<close> on the three values of the examples\<close>
  "demo_json_dumps v =
     (if v = JObj [(''error'', JStr ''not found'')] then not_found_text
      else if v = JObj [(''k'', JInt 1)] then k1_text
      else if v = JObj [] then ''{}''
      else ''null'')"

definition demo_urlparse :: "string \<Rightarrow> exn + ParseResult" where
  \<comment> \<open>\<open>urlparse\<close> on the three texts of the examples; any other text is answered
      as a text with an unmatched bracket is, by a ValueError\<close>
  "demo_urlparse s =
     (if s = ''https://example.org/run''
      then Inr \<lparr>scheme = ''https'', netloc = ''example.org'', path = ''/run'',
                params = [], query = [], fragment = []\<rparr>
      else if s = ''mailto:user@example.org''
      then Inr \<lparr>scheme = ''mailto'', netloc = [], path = ''user@example.org'',
                params = [], query = [], fragment = []\<rparr>
      else if s = ''ftp://example.org/run''
      then Inr \<lparr>scheme = ''ftp'', netloc = ''example.org'', path = ''/run'',
                params = [], query = [], fragment = []\<rparr>
      else Inl (ValueError ''Invalid IPv6 URL''))"

definition demo_geturl :: "ParseResult \<Rightarrow> string" where
  \<comment> \<open>\<open>geturl()\<close> of a result with no params, query or fragment\<close>
  "demo_geturl p = scheme p @ ''://'' @ netloc p @ path p"

definition demo_env :: "exn + jvalue response \<Rightarrow> (jvalue, string) env" where
  "demo_env answer =
     \<lparr>get_access_token = (\<lambda>token_store. Inr ''abc''),
      http = (\<lambda>rq. answer),
      json_loads = demo_json_loads,
      json_dumps = demo_json_dumps,
      urlparse = demo_urlparse,
      geturl = demo_geturl,
      now = ''2024-05-01T12:00:00'',
      isoformat = (\<lambda>d. d),
      show_text = (\<lambda>e cmd_none. ''Error: '' @ str_exn e @ nl),
      format_help = (\<lambda>c. ''  Usage text.'' @ nl),
      int16_other = (\<lambda>s. Inl ''invalid literal for int() with base 16'')\<rparr>"

definition unreachable :: "exn + jvalue response" where
  \<comment> \<open>a transport that fails to connect\<close>
  "unreachable = Inl (RequestException ''connection refused'')"

definition demo_action_url :: ParseResult where
  \<comment> \<open>\<open>urlparse("https://example.org/run")\<close>\<close>
  "demo_action_url =
     \<lparr>scheme = ''https'', netloc = ''example.org'', path = ''/run'',
      params = [], query = [], fragment = []\<rparr>"

definition not_found_answer :: "exn + jvalue response" where
  \<comment> \<open>status 404 with the body \<open>{"error": "not found"}\<close>\<close>
  "not_found_answer = Inr \<lparr>status_code = 404, json = Inr (JObj [(''error'', JStr ''not found'')])\<rparr>"

definition html_answer :: "exn + jvalue response" where
  \<comment> \<open>status 200 with a body that is no JSON: \<open>json()\<close> raises\<close>
  "html_answer =
     Inr \<lparr>status_code = 200,
          json = Inl (ValueError ''Expecting value: line 1 column 1 (char 0)'')\<rparr>"

definition quoted_k1_text :: string where
  \<comment> \<open>the text \<open>'{"k": 1}'\<close>, apostrophes included\<close>
  "quoted_k1_text = apostrophe # k1_text @ [apostrophe]"

definition demo_uuid :: nat where
  \<comment> \<open>the UUID 12345678-1234-5678-1234-567812abcdef\<close>
  "demo_uuid = 0x12345678123456781234567812abcdef"

definition bad_gateway_answer :: "exn + jvalue response" where
  \<comment> \<open>status 502 with a body that is no JSON\<close>
  "bad_gateway_answer =
     Inr \<lparr>status_code = 502,
          json = Inl (ValueError ''Expecting value: line 1 column 1 (char 0)'')\<rparr>"

definition server_error_answer :: "exn + jvalue response" where
  \<comment> \<open>status 500 with the body \<open>{}\<close>\<close>
  "server_error_answer = Inr \<lparr>status_code = 500, json = Inr (JObj [])\<rparr>"

section \<open>How the commands run\<close>

text \<open>
  What each piece of the module does to the state, one lemma per path.
\<close>

lemmas prog_defs =
  ret_def raise_def lift_def bnd_def try_except_def echo_def echo_err_def sys_exit_def
  ctx_exit_def show_exn_def

lemma show_usage_run:
  "show_usage env cmd w =
     (Inl (Exit 0), w\<lparr>stdout := stdout w @ py_rstrip nl (format_help env cmd) @ nl\<rparr>)"
  by (simp add: show_usage_def prog_defs)

lemma make_context_caught:
  assumes "k \<noteq> OtherUsageError"
  shows "Command_make_context env cmd (Inl (UsageError k m)) w =
     (Inl (Exit 0),
      w\<lparr>stderr := stderr w @ show_text env (UsageError k m) True,
        stdout := stdout w @ nl @ py_rstrip nl (format_help env cmd) @ nl\<rparr>)"
  using assms
  by (cases k) (simp_all add: Command_make_context_def show_usage_run prog_defs)

lemma make_context_ok:
  "Command_make_context env cmd (Inr ps) w = (Inr (Some ps), w)"
  by (simp add: Command_make_context_def prog_defs)

lemma invoke_caught:
  assumes "k \<noteq> OtherUsageError"
  shows "invoke_command env cmd (Inl (UsageError k m)) callback w =
     (Inl (Exit 0),
      w\<lparr>stderr := stderr w @ show_text env (UsageError k m) True,
        stdout := stdout w @ nl @ py_rstrip nl (format_help env cmd) @ nl\<rparr>)"
  by (simp add: invoke_command_def bnd_def make_context_caught [OF assms])

lemma invoke_ok:
  "invoke_command env cmd (Inr ps) callback w = callback ps w"
  by (simp add: invoke_command_def bnd_def make_context_ok)

lemma cli_main_caught:
  assumes "k \<noteq> OtherUsageError"
  shows "cli_main env (invoke_command env cmd (Inl (UsageError k m)) callback) w =
     \<lparr>exit_status = 0, traceback = None,
      final = w\<lparr>stderr := stderr w @ show_text env (UsageError k m) True,
                stdout := stdout w @ nl @ py_rstrip nl (format_help env cmd) @ nl\<rparr>\<rparr>"
  by (simp add: cli_main_def invoke_caught [OF assms])

lemma UUID_error_is_ValueError:
  assumes "UUID env v = Inl e"
  shows "\<exists>m. e = ValueError m"
  using assms
  by (auto simp: UUID_def py_int16_def Let_def split: if_splits sum.splits)

lemma UUID_range:
  assumes "UUID env v = Inr u"
  shows "u < 2 ^ 128"
  using assms
  by (auto simp: UUID_def Let_def split: if_splits sum.splits)

lemma status_make_context_invalid:
  assumes "UUID env v = Inl e"
  shows "status_make_context env (Some v) = Inl (UsageError BadParameter v)"
proof -
  from UUID_error_is_ValueError [OF assms] obtain m where "e = ValueError m" ..
  with assms show ?thesis
    by (simp add: status_make_context_def FuncParamType_convert_def fail_def)
qed

lemma status_make_context_valid:
  assumes "UUID env v = Inr u"
  shows "status_make_context env (Some v) = Inr u"
  using assms by (simp add: status_make_context_def FuncParamType_convert_def)

lemma not_a_uuid: "UUID env ''not-a-uuid'' = Inl (ValueError ''badly formed hexadecimal UUID string'')"
  by (simp add: UUID_def py_strip_def py_lstrip_def py_rstrip_def)

lemma get_headers_run:
  assumes "get_access_token env ts = Inr t"
  shows "get_headers env ts w =
     (Inr [(''Authorization'', ''Bearer '' @ t)], w\<lparr>token_log := token_log w @ [ts]\<rparr>)"
  using assms by (simp add: get_headers_def call_get_access_token_def prog_defs)

lemma send_and_show_transport_error:
  assumes "http env rq = Inl (RequestException m)"
  shows "send_and_show env (requests_call env rq) w =
     (Inl (SystemExit 1),
      w\<lparr>http_log := http_log w @ [rq],
        stderr := stderr w @ ''error in request: '' @ m @ nl\<rparr>)"
  using assms
  by (simp add: send_and_show_def requests_call_def handle_requests_exception_def prog_defs)

lemma send_and_show_response:
  assumes "http env rq = Inr r" and "json r = Inr v"
  shows "send_and_show env (requests_call env rq) w =
     (Inr (),
      w\<lparr>http_log := http_log w @ [rq],
        stderr := stderr w @ (if status_code r \<ge> 400
                              then ''got response code '' @ str_int (status_code r) @ nl
                              else []),
        stdout := stdout w @ json_dumps env v @ nl\<rparr>)"
  using assms
  by (simp add: send_and_show_def requests_call_def show_response_def prog_defs)

lemma send_and_show_undecodable:
  assumes "http env rq = Inr r" and "json r = Inl e"
  shows "send_and_show env (requests_call env rq) w =
     (Inl e,
      w\<lparr>http_log := http_log w @ [rq],
        stderr := stderr w @ (if status_code r \<ge> 400
                              then ''got response code '' @ str_int (status_code r) @ nl
                              else [])\<rparr>)"
  using assms
  by (simp add: send_and_show_def requests_call_def show_response_def prog_defs)

lemma submit_run:
  assumes "json_loads env action_body = Inr b" and "get_access_token env None = Inr t"
  shows "submit env name start interval action_url action_body w =
     send_and_show env
       (requests_call env
          \<lparr>verb = POST, url = jobs_url,
           json_kw = Some [(''name'', PStr name),
                           (''start'', PStr (isoformat env (case start of None \<Rightarrow> now env | Some s \<Rightarrow> s))),
                           (''interval'', PInt interval),
                           (''callback_url'', PStr (geturl env action_url)),
                           (''callback_body'', PJson b)],
           headers_kw = [(''Authorization'', ''Bearer '' @ t)],
           timeout_kw = TIMEOUT\<rparr>)
       (w\<lparr>token_log := token_log w @ [None]\<rparr>)"
  using assms
  by (simp add: submit_def requests_post_def get_headers_def call_get_access_token_def prog_defs)

lemma submit_rejects:
  assumes "json_loads env action_body = Inl (ValueError m)"
  shows "submit env name start interval action_url action_body w =
     (Inl (UsageError (BadOptionUsage ''action-body'')
             (''--action-body must parse into valid JSON; got error: '' @ m)), w)"
  using assms by (simp add: submit_def prog_defs)

lemma list_jobs_run:
  assumes "get_access_token env None = Inr t"
  shows "list_jobs env w =
     send_and_show env
       (requests_call env
          \<lparr>verb = GET, url = jobs_url, json_kw = None,
           headers_kw = [(''Authorization'', ''Bearer '' @ t)], timeout_kw = TIMEOUT\<rparr>)
       (w\<lparr>token_log := token_log w @ [None]\<rparr>)"
  using assms
  by (simp add: list_jobs_def requests_get_def get_headers_def call_get_access_token_def prog_defs)

lemma status_run:
  assumes "get_access_token env None = Inr t"
  shows "status env job_id w =
     send_and_show env
       (requests_call env
          \<lparr>verb = GET, url = jobs_url @ UUID_str job_id, json_kw = None,
           headers_kw = [(''Authorization'', ''Bearer '' @ t)], timeout_kw = TIMEOUT\<rparr>)
       (w\<lparr>token_log := token_log w @ [None]\<rparr>)"
  using assms
  by (simp add: status_def requests_get_def get_headers_def call_get_access_token_def prog_defs)

lemma send_and_show_logs:
  "http_log (snd (send_and_show env (requests_call env rq) w)) = http_log w @ [rq]
   \<and> token_log (snd (send_and_show env (requests_call env rq) w)) = token_log w"
  by (auto simp: send_and_show_def requests_call_def show_response_def
      handle_requests_exception_def prog_defs split: sum.splits exn.splits)

lemma cli_main_logs:
  "http_log (final (cli_main env run w)) = http_log (snd (run w))
   \<and> token_log (final (cli_main env run w)) = token_log (snd (run w))
   \<and> stdout (final (cli_main env run w)) = stdout (snd (run w))"
  by (cases "run w") (auto simp: cli_main_def split: sum.splits exn.splits)

lemma demo_env_simps:
  "get_access_token (demo_env a) ts = Inr ''abc''"
  "http (demo_env a) rq = a"
  "json_loads (demo_env a) = demo_json_loads"
  "json_dumps (demo_env a) = demo_json_dumps"
  "urlparse (demo_env a) = demo_urlparse"
  "geturl (demo_env a) = demo_geturl"
  "now (demo_env a) = ''2024-05-01T12:00:00''"
  "isoformat (demo_env a) d = d"
  "show_text (demo_env a) e b = ''Error: '' @ str_exn e @ nl"
  "format_help (demo_env a) c = ''  Usage text.'' @ nl"
  "int16_other (demo_env a) s = Inl ''invalid literal for int() with base 16''"
  by (simp_all add: demo_env_def)

lemma job_submit_parsed:
  "job_submit env (Inr (name, start, interval, action_url, action_body)) w =
     cli_main env (submit env name start interval action_url action_body) w"
  by (simp add: job_submit_def cli_main_def invoke_ok)

lemma job_list_parsed: "job_list env (Inr ()) w = cli_main env (list_jobs env) w"
  by (simp add: job_list_def cli_main_def invoke_ok)

lemma job_status_parsed: "job_status env (Inr job_id) w = cli_main env (status env job_id) w"
  by (simp add: job_status_def cli_main_def invoke_ok)

lemma demo_loads_empty_object: "demo_json_loads ''{}'' = Inr (JObj [])"
  by (simp add: demo_json_loads_def k1_text_def)

lemma str_int_404: "str_int 404 = ''404''"
  by (simp add: str_int_def)

lemma demo_loads_k1: "demo_json_loads k1_text = Inr (JObj [(''k'', JInt 1)])"
  by (simp add: demo_json_loads_def)

lemma demo_loads_quoted_k1:
  "demo_json_loads quoted_k1_text = Inl (ValueError ''Expecting value: line 1 column 1 (char 0)'')"
  by (simp add: demo_json_loads_def quoted_k1_text_def k1_text_def apostrophe_def dquote_def)


lemma strip_quoted_k1: "py_strip [dquote] (py_strip [apostrophe] quoted_k1_text) = k1_text"
  by (simp add: py_strip_def py_lstrip_def py_rstrip_def quoted_k1_text_def k1_text_def
      apostrophe_def dquote_def)

lemma submit_payload_logged:
  assumes body: "json_loads env action_body = Inr b"
    and token: "get_access_token env None = Inr t"
  shows "map json_kw (http_log (final (job_submit env
             (Inr (name, start, interval, action_url, action_body)) w))) =
         map json_kw (http_log w) @
           [Some [(''name'', PStr name),
                  (''start'', PStr (isoformat env (case start of None \<Rightarrow> now env | Some s \<Rightarrow> s))),
                  (''interval'', PInt interval),
                  (''callback_url'', PStr (geturl env action_url)),
                  (''callback_body'', PJson b)]]"
  by (simp add: job_submit_parsed cli_main_logs submit_run [OF body token] send_and_show_logs)

lemma demo_urlparse_mailto:
  "demo_urlparse ''mailto:user@example.org'' =
     Inr \<lparr>scheme = ''mailto'', netloc = [], path = ''user@example.org'',
          params = [], query = [], fragment = []\<rparr>"
  by (simp add: demo_urlparse_def)

lemma demo_urlparse_ftp:
  "demo_urlparse ''ftp://example.org/run'' =
     Inr \<lparr>scheme = ''ftp'', netloc = ''example.org'', path = ''/run'',
          params = [], query = [], fragment = []\<rparr>"
  by (simp add: demo_urlparse_def)

lemma demo_urlparse_https:
  "demo_urlparse ''https://example.org/run'' = Inr demo_action_url"
  by (simp add: demo_urlparse_def demo_action_url_def)

lemma mailto_not_in_message: "\<not> sublist ''mailto'' ''incomplete URL''"
  by (simp add: sublist_Cons_right)

subsection \<open>The text of a UUID\<close>

declare to_hex.simps [simp del]

lemma hex_char_lower:
  assumes "d < 16"
  shows "is_lower_hexdigit (hex_char d)"
proof -
  have "\<forall>k \<in> set [0..<16]. is_lower_hexdigit (hex_char k)"
    by (simp add: upt_rec hex_char_def is_lower_hexdigit_def)
  with assms show ?thesis by simp
qed

lemma to_hex_lower: "list_all is_lower_hexdigit (to_hex n)"
proof (induction n rule: to_hex.induct)
  case (1 n)
  show ?case
  proof (cases "n < 16")
    case True
    then show ?thesis
      by (subst to_hex.simps) (simp add: hex_char_lower)
  next
    case False
    with "1" have "list_all is_lower_hexdigit (to_hex (n div 16))" by simp
    moreover have "is_lower_hexdigit (hex_char (n mod 16))"
      by (rule hex_char_lower) simp
    ultimately show ?thesis
      using False by (subst to_hex.simps) simp
  qed
qed

lemma length_to_hex:
  assumes "n < 16 ^ k" and "0 < k"
  shows "length (to_hex n) \<le> k"
  using assms
proof (induction k arbitrary: n)
  case 0
  then show ?case by simp
next
  case (Suc k)
  show ?case
  proof (cases "n < 16")
    case True
    then show ?thesis by (subst to_hex.simps) simp
  next
    case False
    with Suc.prems have "0 < k" by (cases k) auto
    moreover from Suc.prems have "n div 16 < 16 ^ k"
      by (simp add: less_mult_imp_div_less mult.commute)
    ultimately have "length (to_hex (n div 16)) \<le> k"
      by (rule Suc.IH [rotated])
    then show ?thesis
      using False by (subst to_hex.simps) simp
  qed
qed

lemma format_032x_length:
  assumes "n < 2 ^ 128"
  shows "length (format_032x n) = 32"
proof -
  have "(2::nat) ^ 128 = 16 ^ 32" by simp
  with assms have "n < 16 ^ 32" by simp
  then have "length (to_hex n) \<le> 32" by (rule length_to_hex) simp
  then show ?thesis by (simp add: format_032x_def)
qed

lemma format_032x_lower: "list_all is_lower_hexdigit (format_032x n)"
proof -
  have zero: "is_lower_hexdigit (CHR ''0'')"
    by (simp add: is_lower_hexdigit_def)
  have "list_all is_lower_hexdigit (replicate k (CHR ''0''))" for k
    using zero by (induction k) simp_all
  then show ?thesis
    unfolding format_032x_def by (simp only: list_all_append to_hex_lower simp_thms)
qed

lemma list_all_take: "list_all P xs \<Longrightarrow> list_all P (take k xs)"
  by (auto simp: list_all_iff dest: in_set_takeD)

lemma list_all_drop: "list_all P xs \<Longrightarrow> list_all P (drop k xs)"
  by (auto simp: list_all_iff dest: in_set_dropD)

lemma UUID_str_canonical:
  assumes "n < 2 ^ 128"
  shows "canonical_uuid_text (UUID_str n)"
proof -
  define h where "h = format_032x n"
  have len: "length h = 32"
    unfolding h_def by (rule format_032x_length [OF assms])
  have low: "list_all is_lower_hexdigit h"
    unfolding h_def by (rule format_032x_lower)
  define a where "a = take 8 h"
  define b where "b = take 4 (drop 8 h)"
  define c where "c = take 4 (drop 12 h)"
  define d where "d = take 4 (drop 16 h)"
  define e where "e = drop 20 h"
  have lens: "length a = 8" "length b = 4" "length c = 4" "length d = 4" "length e = 12"
    using len by (simp_all add: a_def b_def c_def d_def e_def)
  have lows: "list_all is_lower_hexdigit a" "list_all is_lower_hexdigit b"
    "list_all is_lower_hexdigit c" "list_all is_lower_hexdigit d"
    "list_all is_lower_hexdigit e"
    using low by (simp_all add: a_def b_def c_def d_def e_def list_all_take list_all_drop)
  have shape: "UUID_str n = a @ ''-'' @ b @ ''-'' @ c @ ''-'' @ d @ ''-'' @ e"
    by (simp add: UUID_str_def Let_def h_def a_def b_def c_def d_def e_def)
  show ?thesis
    unfolding shape canonical_uuid_text_def
    using lens lows by (simp add: nth_append)
qed

lemma status_request_url:
  assumes parsed: "UUID env v = Inr u" and token: "get_access_token env None = Inr t"
  shows "map url (http_log (final (job_status env (status_make_context env (Some v)) w))) =
         map url (http_log w) @ [jobs_url @ UUID_str u]"
  by (simp add: status_make_context_valid [OF parsed] job_status_parsed cli_main_logs
      status_run [OF token] send_and_show_logs)

lemma hexdigit_val_simps:
  "hexdigit_val CHR ''0'' = 0" "hexdigit_val CHR ''1'' = 1" "hexdigit_val CHR ''2'' = 2"
  "hexdigit_val CHR ''3'' = 3" "hexdigit_val CHR ''4'' = 4" "hexdigit_val CHR ''5'' = 5"
  "hexdigit_val CHR ''6'' = 6" "hexdigit_val CHR ''7'' = 7" "hexdigit_val CHR ''8'' = 8"
  "hexdigit_val CHR ''9'' = 9" "hexdigit_val CHR ''a'' = 10" "hexdigit_val CHR ''b'' = 11"
  "hexdigit_val CHR ''c'' = 12" "hexdigit_val CHR ''d'' = 13" "hexdigit_val CHR ''e'' = 14"
  "hexdigit_val CHR ''f'' = 15" "hexdigit_val CHR ''A'' = 10" "hexdigit_val CHR ''B'' = 11"
  "hexdigit_val CHR ''C'' = 12" "hexdigit_val CHR ''D'' = 13" "hexdigit_val CHR ''E'' = 14"
  "hexdigit_val CHR ''F'' = 15"
  by (simp_all add: hexdigit_val_def)

lemmas UUID_eval =
  UUID_def py_strip_def py_lstrip_def py_rstrip_def py_int16_def is_hexdigit_def hex_val_def
  hexdigit_val_simps demo_uuid_def

lemma demo_uuid_canonical_spelling:
  "UUID env ''12345678-1234-5678-1234-567812abcdef'' = Inr demo_uuid"
  by (simp add: UUID_eval)

lemma demo_uuid_uppercase_spelling:
  "UUID env ''12345678-1234-5678-1234-567812ABCDEF'' = Inr demo_uuid"
  by (simp add: UUID_eval)

lemma demo_uuid_braced_spelling:
  "UUID env ''{12345678-1234-5678-1234-567812abcdef}'' = Inr demo_uuid"
  by (simp add: UUID_eval)

lemma demo_uuid_urn_spelling:
  "UUID env ''urn:uuid:12345678-1234-5678-1234-567812abcdef'' = Inr demo_uuid"
  by (simp add: UUID_eval)

lemma demo_uuid_unhyphenated_spelling:
  "UUID env ''12345678123456781234567812abcdef'' = Inr demo_uuid"
  by (simp add: UUID_eval)

lemma demo_uuid_str: "UUID_str demo_uuid = ''12345678-1234-5678-1234-567812abcdef''"
  by (simp add: UUID_str_def format_032x_def hex_char_def demo_uuid_def to_hex.simps)

subsection \<open>Spellings of a UUID, and decimal numbers\<close>

lemma py_remove_absent:
  assumes "pat \<noteq> []" and "hd pat \<notin> set s"
  shows "py_remove pat s = s"
  using assms
proof (induction s)
  case Nil
  then show ?case by simp
next
  case (Cons c cs)
  from Cons.prems obtain p ps where pat: "pat = p # ps" and "p \<noteq> c"
    by (cases pat) auto
  then have "\<not> prefix pat (c # cs)" by simp
  moreover from Cons have "py_remove pat cs = cs" by simp
  ultimately show ?case by simp
qed

lemma py_remove_char: "py_remove [c] s = filter (\<lambda>x. x \<noteq> c) s"
  by (induction s) auto

lemma py_strip_plain:
  assumes "s \<noteq> []" and "hd s \<notin> set chars" and "last s \<notin> set chars"
  shows "py_strip chars s = s"
proof -
  from assms obtain x xs where s: "s = x # xs" by (cases s) auto
  with assms have left: "py_lstrip chars s = s"
    by (simp add: py_lstrip_def)
  from assms have "rev s \<noteq> []" and "hd (rev s) \<notin> set chars"
    by (simp_all add: hd_rev)
  then obtain y ys where r: "rev s = y # ys" and "y \<notin> set chars"
    by (cases "rev s") auto
  then have "dropWhile (\<lambda>c. c \<in> set chars) (rev s) = rev s" by simp
  then have "py_rstrip chars s = s"
    by (simp add: py_rstrip_def)
  with left show ?thesis by (simp add: py_strip_def)
qed

lemma py_strip_braced:
  assumes "s \<noteq> []" and "hd s \<notin> set ''{}''" and "last s \<notin> set ''{}''"
  shows "py_strip ''{}'' (''{'' @ s @ ''}'') = s"
proof -
  from assms obtain x xs where s: "s = x # xs" by (cases s) auto
  with assms have left: "py_lstrip ''{}'' (''{'' @ s @ ''}'') = s @ ''}''"
    by (simp add: py_lstrip_def)
  from assms obtain y ys where r: "rev s = y # ys" and "y \<notin> set ''{}''"
    by (cases "rev s") (auto simp: hd_rev)
  then have "dropWhile (\<lambda>c. c \<in> set ''{}'') (rev (s @ ''}'')) = rev s" by simp
  then have "py_rstrip ''{}'' (s @ ''}'') = s"
    by (simp add: py_rstrip_def)
  with left show ?thesis by (simp add: py_strip_def)
qed

lemma hexdigit_val_hex_char:
  assumes "d < 16"
  shows "hexdigit_val (hex_char d) = d"
proof -
  have "\<forall>k \<in> set [0..<16]. hexdigit_val (hex_char k) = k"
    by (simp add: upt_rec hex_char_def hexdigit_val_def)
  with assms show ?thesis by simp
qed

lemma hex_val_snoc: "hex_val (s @ [c]) = 16 * hex_val s + hexdigit_val c"
  by (simp add: hex_val_def)

lemma hex_val_to_hex: "hex_val (to_hex n) = n"
proof (induction n rule: to_hex.induct)
  case (1 n)
  show ?case
  proof (cases "n < 16")
    case True
    then have "to_hex n = [hex_char n]" by (subst to_hex.simps) simp
    with True show ?thesis
      by (simp add: hex_val_def hexdigit_val_hex_char)
  next
    case False
    then have "to_hex n = to_hex (n div 16) @ [hex_char (n mod 16)]"
      by (subst to_hex.simps) simp
    moreover from False "1" have "hex_val (to_hex (n div 16)) = n div 16" by simp
    ultimately show ?thesis
      by (simp add: hex_val_snoc hexdigit_val_hex_char)
  qed
qed

lemma hex_val_zeros: "hex_val (replicate k (CHR ''0'') @ s) = hex_val s"
proof -
  have "foldl (\<lambda>a c. 16 * a + hexdigit_val c) 0 (replicate k (CHR ''0'')) = 0"
    by (induction k) (simp_all add: hexdigit_val_def)
  then show ?thesis by (simp add: hex_val_def)
qed

lemma hex_val_format_032x: "hex_val (format_032x n) = n"
  by (simp add: format_032x_def hex_val_zeros hex_val_to_hex)

lemma lower_is_hexdigit: "is_lower_hexdigit c \<Longrightarrow> is_hexdigit c"
  by (auto simp: is_lower_hexdigit_def is_hexdigit_def)

lemma UUID_of_hex:
  assumes "py_remove ''-'' (py_strip ''{}'' (py_remove ''uuid:'' (py_remove ''urn:'' v))) = h"
    and "length h = 32" and "list_all is_hexdigit h" and "hex_val h < 2 ^ 128"
  shows "UUID env v = Inr (hex_val h)"
proof -
  from assms(2) have "h \<noteq> []" by auto
  with assms show ?thesis
    by (simp add: UUID_def py_int16_def Let_def)
qed

lemma five_slices:
  "take 8 h @ take 4 (drop 8 h) @ take 4 (drop 12 h) @ take 4 (drop 16 h) @ drop 20 h = h"
proof -
  have "take 4 (drop 16 h) @ drop 20 h = drop 16 h"
    using append_take_drop_id [of 4 "drop 16 h"] by simp
  moreover have "take 4 (drop 12 h) @ drop 16 h = drop 12 h"
    using append_take_drop_id [of 4 "drop 12 h"] by simp
  moreover have "take 4 (drop 8 h) @ drop 12 h = drop 8 h"
    using append_take_drop_id [of 4 "drop 8 h"] by simp
  ultimately show ?thesis by simp
qed

lemma UUID_str_parts:
  assumes "n < 2 ^ 128"
  obtains a b c d e where
    "UUID_str n = a @ ''-'' @ b @ ''-'' @ c @ ''-'' @ d @ ''-'' @ e"
    and "a @ b @ c @ d @ e = format_032x n"
    and "length a = 8" and "length e = 12"
    and "list_all is_lower_hexdigit a" and "list_all is_lower_hexdigit b"
    and "list_all is_lower_hexdigit c" and "list_all is_lower_hexdigit d"
    and "list_all is_lower_hexdigit e"
proof -
  define h where "h = format_032x n"
  have len: "length h = 32"
    unfolding h_def by (rule format_032x_length [OF assms])
  have low: "list_all is_lower_hexdigit h"
    unfolding h_def by (rule format_032x_lower)
  show thesis
  proof (rule that [of "take 8 h" "take 4 (drop 8 h)" "take 4 (drop 12 h)"
        "take 4 (drop 16 h)" "drop 20 h"])
    show "UUID_str n = take 8 h @ ''-'' @ take 4 (drop 8 h) @ ''-'' @ take 4 (drop 12 h)
        @ ''-'' @ take 4 (drop 16 h) @ ''-'' @ drop 20 h"
      by (simp add: UUID_str_def Let_def h_def)
    show "take 8 h @ take 4 (drop 8 h) @ take 4 (drop 12 h) @ take 4 (drop 16 h) @ drop 20 h
        = format_032x n"
      unfolding h_def by (rule five_slices)
    show "length (take 8 h) = 8" and "length (drop 20 h) = 12"
      using len by simp_all
    show "list_all is_lower_hexdigit (take 8 h)"
      and "list_all is_lower_hexdigit (take 4 (drop 8 h))"
      and "list_all is_lower_hexdigit (take 4 (drop 12 h))"
      and "list_all is_lower_hexdigit (take 4 (drop 16 h))"
      and "list_all is_lower_hexdigit (drop 20 h)"
      using low by (simp_all add: list_all_take list_all_drop)
  qed
qed

lemma not_lower_hexdigit:
  "\<not> is_lower_hexdigit (CHR ''-'')" "\<not> is_lower_hexdigit (CHR ''u'')"
  "\<not> is_lower_hexdigit (CHR ''{'')" "\<not> is_lower_hexdigit (CHR ''}'')"
  by (simp_all add: is_lower_hexdigit_def)

lemma lower_hex_no_hyphen:
  assumes "list_all is_lower_hexdigit xs"
  shows "filter (\<lambda>x. x \<noteq> CHR ''-'') xs = xs"
  using assms not_lower_hexdigit(1) by (induction xs) auto

lemma lower_hex_uuid_chars:
  assumes "list_all is_lower_hexdigit xs"
  shows "list_all uuid_char xs"
  using assms by (induction xs) (simp_all add: uuid_char_def)

lemma UUID_str_facts:
  assumes "n < 2 ^ 128"
  shows "list_all uuid_char (UUID_str n)"
    and "filter (\<lambda>x. x \<noteq> CHR ''-'') (UUID_str n) = format_032x n"
    and "UUID_str n \<noteq> []"
    and "is_lower_hexdigit (hd (UUID_str n))"
    and "is_lower_hexdigit (last (UUID_str n))"
proof -
  from UUID_str_parts [OF assms] obtain a b c d e where
    shape: "UUID_str n = a @ ''-'' @ b @ ''-'' @ c @ ''-'' @ d @ ''-'' @ e"
    and whole: "a @ b @ c @ d @ e = format_032x n"
    and la: "length a = 8" and le: "length e = 12"
    and lows: "list_all is_lower_hexdigit a" "list_all is_lower_hexdigit b"
      "list_all is_lower_hexdigit c" "list_all is_lower_hexdigit d"
      "list_all is_lower_hexdigit e"
    by blast
  show "list_all uuid_char (UUID_str n)"
    unfolding shape using lows by (simp add: lower_hex_uuid_chars uuid_char_def)
  show "filter (\<lambda>x. x \<noteq> CHR ''-'') (UUID_str n) = format_032x n"
    unfolding shape using lows whole by (simp add: lower_hex_no_hyphen)
  show "UUID_str n \<noteq> []"
    unfolding shape by simp
  from la obtain x xs where a: "a = x # xs" by (cases a) auto
  with lows(1) show "is_lower_hexdigit (hd (UUID_str n))"
    unfolding shape by simp
  from le have "e \<noteq> []" by auto
  then have "last (UUID_str n) = last e"
    unfolding shape by simp
  moreover from \<open>e \<noteq> []\<close> lows(5) have "is_lower_hexdigit (last e)"
    by (simp add: list_all_iff)
  ultimately show "is_lower_hexdigit (last (UUID_str n))" by simp
qed

lemma uuid_char_plain:
  assumes "list_all uuid_char s"
  shows "CHR ''u'' \<notin> set s"
proof
  assume "CHR ''u'' \<in> set s"
  with assms have "uuid_char (CHR ''u'')"
    by (simp add: list_all_iff)
  then show False
    by (simp add: uuid_char_def is_lower_hexdigit_def)
qed

lemma lower_hexdigit_no_brace:
  assumes "is_lower_hexdigit c"
  shows "c \<notin> set ''{}''"
proof -
  have "\<not> is_lower_hexdigit (CHR ''{'')" and "\<not> is_lower_hexdigit (CHR ''}'')"
    by (simp_all add: is_lower_hexdigit_def)
  with assms show ?thesis by auto
qed

lemma UUID_of_plain_text:
  assumes chars: "CHR ''u'' \<notin> set v"
    and nonempty: "v \<noteq> []" and first: "hd v \<notin> set ''{}''" and final: "last v \<notin> set ''{}''"
    and digits: "filter (\<lambda>x. x \<noteq> CHR ''-'') v = h"
    and "length h = 32" and "list_all is_hexdigit h" and "hex_val h < 2 ^ 128"
  shows "UUID env v = Inr (hex_val h)"
proof (rule UUID_of_hex)
  have "py_remove ''urn:'' v = v"
    by (rule py_remove_absent) (simp_all add: chars)
  moreover have "py_remove ''uuid:'' v = v"
    by (rule py_remove_absent) (simp_all add: chars)
  moreover have "py_strip ''{}'' v = v"
    by (rule py_strip_plain [OF nonempty first final])
  ultimately show
    "py_remove ''-'' (py_strip ''{}'' (py_remove ''uuid:'' (py_remove ''urn:'' v))) = h"
    by (simp add: py_remove_char digits)
qed fact+

lemma UUID_parses_its_text:
  assumes "u < 2 ^ 128"
  shows "UUID env (UUID_str u) = Inr u"
proof -
  note facts = UUID_str_facts [OF assms]
  have "UUID env (UUID_str u) = Inr (hex_val (format_032x u))"
  proof (rule UUID_of_plain_text)
    show "CHR ''u'' \<notin> set (UUID_str u)"
      by (rule uuid_char_plain [OF facts(1)])
    show "UUID_str u \<noteq> []" by (rule facts(3))
    show "hd (UUID_str u) \<notin> set ''{}''"
      by (rule lower_hexdigit_no_brace [OF facts(4)])
    show "last (UUID_str u) \<notin> set ''{}''"
      by (rule lower_hexdigit_no_brace [OF facts(5)])
    show "filter (\<lambda>x. x \<noteq> CHR ''-'') (UUID_str u) = format_032x u"
      by (rule facts(2))
    show "length (format_032x u) = 32"
      by (rule format_032x_length [OF assms])
    show "list_all is_hexdigit (format_032x u)"
      using format_032x_lower [of u] by (auto simp: list_all_iff lower_is_hexdigit)
    show "hex_val (format_032x u) < 2 ^ 128"
      using assms by (simp add: hex_val_format_032x)
  qed
  then show ?thesis by (simp add: hex_val_format_032x)
qed

lemma UUID_parses_unhyphenated:
  assumes "u < 2 ^ 128"
  shows "UUID env (py_remove ''-'' (UUID_str u)) = Inr u"
proof -
  note facts = UUID_str_facts [OF assms]
  have h: "py_remove ''-'' (UUID_str u) = format_032x u"
    by (simp add: py_remove_char facts(2))
  have low: "list_all is_lower_hexdigit (format_032x u)"
    by (rule format_032x_lower)
  have len: "length (format_032x u) = 32"
    by (rule format_032x_length [OF assms])
  then have nonempty: "format_032x u \<noteq> []" by auto
  have "UUID env (format_032x u) = Inr (hex_val (format_032x u))"
  proof (rule UUID_of_plain_text)
    show "CHR ''u'' \<notin> set (format_032x u)"
      by (rule uuid_char_plain [OF lower_hex_uuid_chars [OF low]])
    show "format_032x u \<noteq> []" by (rule nonempty)
    have "is_lower_hexdigit (hd (format_032x u))"
      using low nonempty by (simp add: list_all_iff)
    then show "hd (format_032x u) \<notin> set ''{}''"
      by (rule lower_hexdigit_no_brace)
    have "is_lower_hexdigit (last (format_032x u))"
      using low nonempty by (simp add: list_all_iff)
    then show "last (format_032x u) \<notin> set ''{}''"
      by (rule lower_hexdigit_no_brace)
    show "filter (\<lambda>x. x \<noteq> CHR ''-'') (format_032x u) = format_032x u"
      by (rule lower_hex_no_hyphen [OF low])
    show "length (format_032x u) = 32" by (rule len)
    show "list_all is_hexdigit (format_032x u)"
      using low by (auto simp: list_all_iff lower_is_hexdigit)
    show "hex_val (format_032x u) < 2 ^ 128"
      using assms by (simp add: hex_val_format_032x)
  qed
  then show ?thesis by (simp add: h hex_val_format_032x)
qed

lemma UUID_parses_braced:
  assumes "u < 2 ^ 128"
  shows "UUID env (''{'' @ UUID_str u @ ''}'') = Inr u"
proof -
  note facts = UUID_str_facts [OF assms]
  have no_u: "CHR ''u'' \<notin> set (''{'' @ UUID_str u @ ''}'')"
    using uuid_char_plain [OF facts(1)] by simp
  have "py_remove ''urn:'' (''{'' @ UUID_str u @ ''}'') = ''{'' @ UUID_str u @ ''}''"
    by (rule py_remove_absent) (simp_all add: no_u del: set_append append.simps)
  moreover have "py_remove ''uuid:'' (''{'' @ UUID_str u @ ''}'') = ''{'' @ UUID_str u @ ''}''"
    by (rule py_remove_absent) (simp_all add: no_u del: set_append append.simps)
  moreover have "py_strip ''{}'' (''{'' @ UUID_str u @ ''}'') = UUID_str u"
    by (rule py_strip_braced [OF facts(3) lower_hexdigit_no_brace [OF facts(4)]
          lower_hexdigit_no_brace [OF facts(5)]])
  ultimately have
    "py_remove ''-'' (py_strip ''{}'' (py_remove ''uuid:'' (py_remove ''urn:''
        (''{'' @ UUID_str u @ ''}'')))) = format_032x u"
    by (simp add: py_remove_char facts(2) del: append.simps)
  then have "UUID env (''{'' @ UUID_str u @ ''}'') = Inr (hex_val (format_032x u))"
  proof (rule UUID_of_hex)
    show "length (format_032x u) = 32"
      by (rule format_032x_length [OF assms])
    show "list_all is_hexdigit (format_032x u)"
      using format_032x_lower [of u] by (auto simp: list_all_iff lower_is_hexdigit)
    show "hex_val (format_032x u) < 2 ^ 128"
      using assms by (simp add: hex_val_format_032x)
  qed
  then show ?thesis by (simp add: hex_val_format_032x)
qed

lemma UUID_parses_urn:
  assumes "u < 2 ^ 128"
  shows "UUID env (''urn:uuid:'' @ UUID_str u) = Inr u"
proof -
  note facts = UUID_str_facts [OF assms]
  have no_u: "CHR ''u'' \<notin> set (UUID_str u)"
    by (rule uuid_char_plain [OF facts(1)])
  have plain1: "py_remove ''urn:'' (UUID_str u) = UUID_str u"
    by (rule py_remove_absent) (simp_all add: no_u)
  have plain2: "py_remove ''uuid:'' (UUID_str u) = UUID_str u"
    by (rule py_remove_absent) (simp_all add: no_u)
  have "py_remove ''urn:'' (''urn:uuid:'' @ UUID_str u) = ''uuid:'' @ UUID_str u"
    by (simp add: plain1)
  moreover have "py_remove ''uuid:'' (''uuid:'' @ UUID_str u) = UUID_str u"
    by (simp add: plain2)
  moreover have "py_strip ''{}'' (UUID_str u) = UUID_str u"
    by (rule py_strip_plain [OF facts(3) lower_hexdigit_no_brace [OF facts(4)]
          lower_hexdigit_no_brace [OF facts(5)]])
  ultimately have
    "py_remove ''-'' (py_strip ''{}'' (py_remove ''uuid:'' (py_remove ''urn:''
        (''urn:uuid:'' @ UUID_str u)))) = format_032x u"
    by (simp add: py_remove_char facts(2) del: append.simps)
  then have "UUID env (''urn:uuid:'' @ UUID_str u) = Inr (hex_val (format_032x u))"
  proof (rule UUID_of_hex)
    show "length (format_032x u) = 32"
      by (rule format_032x_length [OF assms])
    show "list_all is_hexdigit (format_032x u)"
      using format_032x_lower [of u] by (auto simp: list_all_iff lower_is_hexdigit)
    show "hex_val (format_032x u) < 2 ^ 128"
      using assms by (simp add: hex_val_format_032x)
  qed
  then show ?thesis by (simp add: hex_val_format_032x)
qed

lemma upper_char_table:
  "list_all (\<lambda>c. is_hexdigit (upper_char c) \<and> hexdigit_val (upper_char c) = hexdigit_val c
        \<and> upper_char c \<noteq> CHR ''u'' \<and> upper_char c \<noteq> CHR ''{''
        \<and> upper_char c \<noteq> CHR ''}'' \<and> upper_char c \<noteq> CHR ''-'')
     ''0123456789abcdef''"
  by (simp add: upper_char_def is_hexdigit_def hexdigit_val_def)

lemma upper_char_hexdigit:
  assumes "is_lower_hexdigit c"
  shows "is_hexdigit (upper_char c)" and "hexdigit_val (upper_char c) = hexdigit_val c"
    and "upper_char c \<noteq> CHR ''u''" and "upper_char c \<noteq> CHR ''{''"
    and "upper_char c \<noteq> CHR ''}''" and "upper_char c \<noteq> CHR ''-''"
proof -
  from assms have "c \<in> set ''0123456789abcdef''"
    by (simp only: is_lower_hexdigit_def)
  with upper_char_table have
    "is_hexdigit (upper_char c) \<and> hexdigit_val (upper_char c) = hexdigit_val c
        \<and> upper_char c \<noteq> CHR ''u'' \<and> upper_char c \<noteq> CHR ''{''
        \<and> upper_char c \<noteq> CHR ''}'' \<and> upper_char c \<noteq> CHR ''-''"
    unfolding list_all_iff by blast
  then show "is_hexdigit (upper_char c)" and "hexdigit_val (upper_char c) = hexdigit_val c"
    and "upper_char c \<noteq> CHR ''u''" and "upper_char c \<noteq> CHR ''{''"
    and "upper_char c \<noteq> CHR ''}''" and "upper_char c \<noteq> CHR ''-''"
    by simp_all
qed

lemma upper_char_hyphen: "upper_char (CHR ''-'') = CHR ''-''"
  by (simp add: upper_char_def)

lemma upper_no_u:
  assumes "list_all uuid_char s"
  shows "CHR ''u'' \<notin> set (py_upper s)"
  using assms
  by (induction s) (auto simp: py_upper_def uuid_char_def upper_char_hyphen
      dest: upper_char_hexdigit(3))

lemma upper_filter_hyphen:
  assumes "list_all uuid_char s"
  shows "filter (\<lambda>x. x \<noteq> CHR ''-'') (py_upper s)
         = py_upper (filter (\<lambda>x. x \<noteq> CHR ''-'') s)"
  using assms
proof (induction s)
  case Nil
  then show ?case by (simp add: py_upper_def)
next
  case (Cons c cs)
  then have rest: "filter (\<lambda>x. x \<noteq> CHR ''-'') (py_upper cs)
         = py_upper (filter (\<lambda>x. x \<noteq> CHR ''-'') cs)"
    by simp
  from Cons.prems have "is_lower_hexdigit c \<or> c = CHR ''-''"
    by (simp add: uuid_char_def)
  then show ?case
  proof
    assume low: "is_lower_hexdigit c"
    then have "c \<noteq> CHR ''-''" using not_lower_hexdigit(1) by auto
    with rest upper_char_hexdigit(6) [OF low] show ?thesis
      by (simp add: py_upper_def)
  next
    assume "c = CHR ''-''"
    with rest show ?thesis
      by (simp add: py_upper_def upper_char_hyphen)
  qed
qed

lemma upper_hexdigits:
  assumes "list_all is_lower_hexdigit xs"
  shows "list_all is_hexdigit (py_upper xs)"
  using assms by (induction xs) (simp_all add: py_upper_def upper_char_hexdigit(1))

lemma upper_hex_val:
  assumes "list_all is_lower_hexdigit xs"
  shows "hex_val (py_upper xs) = hex_val xs"
proof -
  have "foldl (\<lambda>a c. 16 * a + hexdigit_val c) a (map upper_char xs)
      = foldl (\<lambda>a c. 16 * a + hexdigit_val c) a xs" for a
    using assms by (induction xs arbitrary: a) (simp_all add: upper_char_hexdigit(2))
  then show ?thesis by (simp add: hex_val_def py_upper_def)
qed

lemma UUID_parses_upper:
  assumes "u < 2 ^ 128"
  shows "UUID env (py_upper (UUID_str u)) = Inr u"
proof -
  note facts = UUID_str_facts [OF assms]
  have low: "list_all is_lower_hexdigit (format_032x u)"
    by (rule format_032x_lower)
  have "UUID env (py_upper (UUID_str u)) = Inr (hex_val (py_upper (format_032x u)))"
  proof (rule UUID_of_plain_text)
    show "CHR ''u'' \<notin> set (py_upper (UUID_str u))"
      by (rule upper_no_u [OF facts(1)])
    show nonempty: "py_upper (UUID_str u) \<noteq> []"
      using facts(3) by (simp add: py_upper_def)
    have "hd (py_upper (UUID_str u)) = upper_char (hd (UUID_str u))"
      using facts(3) by (simp add: py_upper_def hd_map)
    then show "hd (py_upper (UUID_str u)) \<notin> set ''{}''"
      using upper_char_hexdigit(4,5) [OF facts(4)] by simp
    have "last (py_upper (UUID_str u)) = upper_char (last (UUID_str u))"
      using facts(3) by (simp add: py_upper_def last_map)
    then show "last (py_upper (UUID_str u)) \<notin> set ''{}''"
      using upper_char_hexdigit(4,5) [OF facts(5)] by simp
    show "filter (\<lambda>x. x \<noteq> CHR ''-'') (py_upper (UUID_str u)) = py_upper (format_032x u)"
      by (simp add: upper_filter_hyphen [OF facts(1)] facts(2))
    show "length (py_upper (format_032x u)) = 32"
      by (simp add: py_upper_def format_032x_length [OF assms])
    show "list_all is_hexdigit (py_upper (format_032x u))"
      by (rule upper_hexdigits [OF low])
    show "hex_val (py_upper (format_032x u)) < 2 ^ 128"
      using assms by (simp add: upper_hex_val [OF low] hex_val_format_032x)
  qed
  then show ?thesis
    by (simp add: upper_hex_val [OF low] hex_val_format_032x)
qed

declare str_nat.simps [simp del]

lemma decimal_digit_char:
  assumes "d < 10"
  shows "is_decimal_digit (''0123456789'' ! d)"
    and "of_char (''0123456789'' ! d) - 48 = d"
proof -
  have "\<forall>k \<in> set [0..<10]. is_decimal_digit (''0123456789'' ! k)
      \<and> of_char (''0123456789'' ! k) - 48 = k"
    by (simp add: upt_rec is_decimal_digit_def)
  with assms show "is_decimal_digit (''0123456789'' ! d)"
    and "of_char (''0123456789'' ! d) - 48 = d"
    by simp_all
qed

lemma str_nat_digits: "list_all is_decimal_digit (str_nat n)"
proof (induction n rule: str_nat.induct)
  case (1 n)
  show ?case
  proof (cases "n < 10")
    case True
    then show ?thesis
      by (subst str_nat.simps) (simp add: decimal_digit_char(1))
  next
    case False
    with "1" have "list_all is_decimal_digit (str_nat (n div 10))" by simp
    moreover have "is_decimal_digit (''0123456789'' ! (n mod 10))"
      by (rule decimal_digit_char(1)) simp
    ultimately show ?thesis
      using False by (subst str_nat.simps) simp
  qed
qed

lemma decimal_value_str_nat: "decimal_value (str_nat n) = n"
proof (induction n rule: str_nat.induct)
  case (1 n)
  show ?case
  proof (cases "n < 10")
    case True
    then have "str_nat n = [''0123456789'' ! n]" by (subst str_nat.simps) simp
    with True show ?thesis
      by (simp add: decimal_value_def decimal_digit_char(2))
  next
    case False
    then have "str_nat n = str_nat (n div 10) @ [''0123456789'' ! (n mod 10)]"
      by (subst str_nat.simps) simp
    moreover from False "1" have "decimal_value (str_nat (n div 10)) = n div 10" by simp
    moreover have "of_char (''0123456789'' ! (n mod 10)) - 48 = n mod 10"
      by (rule decimal_digit_char(2)) simp
    ultimately show ?thesis
      by (simp add: decimal_value_def)
  qed
qed

lemma str_int_decimal:
  assumes "0 \<le> i"
  shows "list_all is_decimal_digit (str_int i)"
    and "decimal_value (str_int i) = nat i"
  using assms by (simp_all add: str_int_def str_nat_digits decimal_value_str_nat)

lemma str_int_502: "str_int 502 = ''502''"
  by (simp add: str_int_def str_nat.simps)

lemma str_int_500: "str_int 500 = ''500''"
  by (simp add: str_int_def str_nat.simps)

lemma second_uuid_spellings:
  "UUID env ''000000000000000000000000000000FF'' = Inr 255"
  "UUID env ''urn:uuid:00000000-0000-0000-0000-0000000000ff'' = Inr 255"
  by (simp_all add: UUID_def py_strip_def py_lstrip_def py_rstrip_def py_int16_def
      is_hexdigit_def hex_val_def hexdigit_val_simps)

lemma second_uuid_str: "UUID_str 255 = ''00000000-0000-0000-0000-0000000000ff''"
proof -
  have digits: "to_hex 255 = ''ff''"
    by (simp add: to_hex.simps hex_char_def)
  have zeros: "replicate 30 (CHR ''0'') = ''000000000000000000000000000000''"
    by (simp add: eval_nat_numeral)
  have "format_032x 255 = ''000000000000000000000000000000ff''"
    by (simp add: format_032x_def digits zeros)
  then show ?thesis
    by (simp add: UUID_str_def)
qed

lemma demo_uuid_upper:
  "py_upper ''12345678-1234-5678-1234-567812abcdef'' = ''12345678-1234-5678-1234-567812ABCDEF''"
  by (simp add: py_upper_def upper_char_def)

section \<open>The usage-on-error wrapper\<close>

text \<open>
  Claim C1: when parsing the arguments of a command fails with a missing parameter, a bad
  parameter, a bad argument or a bad option, the process ends with a non-zero exit
  status.

  The code does not do that.  \<open>show_usage\<close> calls \<open>ctx.exit()\<close> before
  \<open>sys.exit(2)\<close>, and \<open>ctx.exit()\<close> raises \<open>Exit(0)\<close>: neither \<open>sys.exit(2)\<close> nor
  the \<open>sys.exit(e.exit_code)\<close> of \<open>make_context\<close> is reached, and the exit status is
  0 for each of the four classes of failure, for every command and whatever the
  command's function is.  The last conjunct is the run \<open>job status not-a-uuid\<close>.
\<close>

theorem usage_on_error_exit_status:
  "exit_status (cli_main env (invoke_command env cmd
       (Inl (UsageError MissingParameter m)) callback) w) = 0
   \<and> exit_status (cli_main env (invoke_command env cmd
       (Inl (UsageError BadParameter m)) callback) w) = 0
   \<and> exit_status (cli_main env (invoke_command env cmd
       (Inl (UsageError BadArgumentUsage m)) callback) w) = 0
   \<and> exit_status (cli_main env (invoke_command env cmd
       (Inl (UsageError (BadOptionUsage opt) m)) callback) w) = 0
   \<and> exit_status (job_status env (status_make_context env (Some ''not-a-uuid'')) w) = 0"
  by (simp add: cli_main_caught job_status_def status_make_context_invalid [OF not_a_uuid])

text \<open>
  Claim C8: for every \<open>job_id\<close> text that does not parse as a UUID, \<open>status\<close> fails
  while its arguments are parsed, on the usage-on-error path: the text is rejected as a
  bad parameter, the error is shown, a blank line and the usage text of \<open>status\<close> go to
  standard output, and the run ends there.  The command's function does not run (the
  outcome is the same for every \<open>callback\<close>), no request is sent and the token
  provider is not called.
\<close>

theorem status_invalid_uuid_usage:
  assumes "UUID env v = Inl e"
  shows "status_make_context env (Some v) = Inl (UsageError BadParameter v)
    \<and> invoke_command env Status_command (status_make_context env (Some v)) callback w =
        (Inl (Exit 0),
         w\<lparr>stderr := stderr w @ show_text env (UsageError BadParameter v) True,
           stdout := stdout w @ nl @ py_rstrip nl (format_help env Status_command) @ nl\<rparr>)
    \<and> stdout (final (job_status env (status_make_context env (Some v)) w)) =
        stdout w @ nl @ py_rstrip nl (format_help env Status_command) @ nl
    \<and> http_log (final (job_status env (status_make_context env (Some v)) w)) = http_log w
    \<and> token_log (final (job_status env (status_make_context env (Some v)) w)) = token_log w"
proof -
  have parse: "status_make_context env (Some v) = Inl (UsageError BadParameter v)"
    by (rule status_make_context_invalid [OF assms])
  have run: "invoke_command env Status_command (Inl (UsageError BadParameter v)) callback w =
        (Inl (Exit 0),
         w\<lparr>stderr := stderr w @ show_text env (UsageError BadParameter v) True,
           stdout := stdout w @ nl @ py_rstrip nl (format_help env Status_command) @ nl\<rparr>)"
    by (rule invoke_caught) simp
  have fin: "job_status env (Inl (UsageError BadParameter v)) w =
     \<lparr>exit_status = 0, traceback = None,
      final = w\<lparr>stderr := stderr w @ show_text env (UsageError BadParameter v) True,
                stdout := stdout w @ nl @ py_rstrip nl (format_help env Status_command) @ nl\<rparr>\<rparr>"
    unfolding job_status_def by (rule cli_main_caught) simp
  show ?thesis
    by (simp add: parse run fin)
qed

theorem status_invalid_uuid_usage_witness:
  "UUID (demo_env unreachable) ''not-a-uuid''
     = Inl (ValueError ''badly formed hexadecimal UUID string'')
   \<and> status_make_context (demo_env unreachable) (Some ''not-a-uuid'')
       = Inl (UsageError BadParameter ''not-a-uuid'')
   \<and> stdout (final (job_status (demo_env unreachable)
         (status_make_context (demo_env unreachable) (Some ''not-a-uuid'')) world0))
       = nl @ ''  Usage text.'' @ nl
   \<and> http_log (final (job_status (demo_env unreachable)
         (status_make_context (demo_env unreachable) (Some ''not-a-uuid'')) world0)) = []"
  using status_invalid_uuid_usage
    [OF not_a_uuid, of "demo_env unreachable" "status (demo_env unreachable)" world0]
  by (simp add: not_a_uuid status_make_context_invalid [OF not_a_uuid] world0_def
      demo_env_simps py_rstrip_def nl_def)

section \<open>The response presenter and the transport\<close>

text \<open>
  Claim C5: for every command, if the HTTP call raises a transport-layer exception (a
  \<open>requests.RequestException\<close>: connection failure, timeout, DNS failure), the command
  prints exactly the line \<open>error in request: <description>\<close> on the error stream, ends
  with exit status 1 and writes nothing to standard output.
\<close>

theorem transport_error_reported:
  assumes token: "get_access_token env None = Inr t"
    and transport: "\<And>rq. http env rq = Inl (RequestException m)"
    and body: "json_loads env action_body = Inr b"
  shows "stderr (final (job_submit env (Inr (name, start, interval, action_url, action_body)) w))
           = stderr w @ ''error in request: '' @ m @ nl
       \<and> exit_status (job_submit env (Inr (name, start, interval, action_url, action_body)) w) = 1
       \<and> stdout (final (job_submit env (Inr (name, start, interval, action_url, action_body)) w))
           = stdout w
       \<and> stderr (final (job_list env (Inr ()) w)) = stderr w @ ''error in request: '' @ m @ nl
       \<and> exit_status (job_list env (Inr ()) w) = 1
       \<and> stdout (final (job_list env (Inr ()) w)) = stdout w
       \<and> stderr (final (job_status env (Inr job_id) w))
           = stderr w @ ''error in request: '' @ m @ nl
       \<and> exit_status (job_status env (Inr job_id) w) = 1
       \<and> stdout (final (job_status env (Inr job_id) w)) = stdout w"
  by (simp add: job_submit_parsed job_list_parsed job_status_parsed
      submit_run [OF body token] list_jobs_run [OF token] status_run [OF token]
      cli_main_def send_and_show_transport_error [OF transport])

theorem transport_error_reported_witness:
  "get_access_token (demo_env unreachable) None = Inr ''abc''
   \<and> (\<forall>rq. http (demo_env unreachable) rq = Inl (RequestException ''connection refused''))
   \<and> json_loads (demo_env unreachable) ''{}'' = Inr (JObj [])
   \<and> stderr (final (job_submit (demo_env unreachable)
         (Inr (''demo'', None, 60, demo_action_url, ''{}'')) world0))
       = ''error in request: connection refused'' @ nl
   \<and> exit_status (job_submit (demo_env unreachable)
         (Inr (''demo'', None, 60, demo_action_url, ''{}'')) world0) = 1
   \<and> stdout (final (job_submit (demo_env unreachable)
         (Inr (''demo'', None, 60, demo_action_url, ''{}'')) world0)) = []
   \<and> stderr (final (job_list (demo_env unreachable) (Inr ()) world0))
       = ''error in request: connection refused'' @ nl
   \<and> exit_status (job_list (demo_env unreachable) (Inr ()) world0) = 1
   \<and> stdout (final (job_list (demo_env unreachable) (Inr ()) world0)) = []
   \<and> stderr (final (job_status (demo_env unreachable) (Inr 5) world0))
       = ''error in request: connection refused'' @ nl
   \<and> exit_status (job_status (demo_env unreachable) (Inr 5) world0) = 1
   \<and> stdout (final (job_status (demo_env unreachable) (Inr 5) world0)) = []"
  using transport_error_reported
    [of "demo_env unreachable" "''abc''" "''connection refused''" "''{}''" "JObj []"
        "''demo''" None 60 demo_action_url world0 5]
  by (simp add: demo_env_simps unreachable_def demo_loads_empty_object world0_def)

text \<open>
  Claim C4, as stated: for every response with status code 400 or more that a command
  obtains, the command prints \<open>got response code <status_code>\<close> on the error stream,
  prints the JSON body on standard output, and exits with status 0.

  That fails for a response whose body does not decode: \<open>show_response\<close> prints the
  diagnostic line and then \<open>response.json()\<close> raises.  For \<open>job list\<close> and a
  response of status 502 with a body that is no JSON, nothing is written to standard
  output and the exit status is 1.
\<close>

theorem error_status_undecodable_counterexample:
  "exit_status (job_list (demo_env bad_gateway_answer) (Inr ()) world0) = 1
   \<and> stdout (final (job_list (demo_env bad_gateway_answer) (Inr ()) world0)) = []
   \<and> stderr (final (job_list (demo_env bad_gateway_answer) (Inr ()) world0))
       = ''got response code 502'' @ nl"
proof -
  have token: "get_access_token (demo_env bad_gateway_answer) None = Inr ''abc''"
    by (simp add: demo_env_simps)
  have answer: "http (demo_env bad_gateway_answer) rq =
      Inr \<lparr>status_code = 502,
           json = Inl (ValueError ''Expecting value: line 1 column 1 (char 0)'')\<rparr>" for rq
    by (simp add: demo_env_simps bad_gateway_answer_def)
  show ?thesis
    by (simp add: job_list_parsed cli_main_def list_jobs_run [OF token]
        send_and_show_undecodable [OF answer] world0_def str_int_502)
qed

text \<open>
  Claim C4, amended: for every command and every response with status code 400 or more
  whose body decodes as JSON, the command prints the line
  \<open>got response code <status_code>\<close> on the error stream, the status code written in
  decimal digits, prints the body re-serialized by \<open>json.dumps\<close> and a newline on
  standard output, and exits with status 0.
\<close>

theorem error_status_reported:
  assumes token: "get_access_token env None = Inr t"
    and transport: "\<And>rq. http env rq = Inr r"
    and code: "status_code r \<ge> 400"
    and decoded: "json r = Inr v"
    and body: "json_loads env action_body = Inr b"
  shows "stderr (final (job_submit env (Inr (name, start, interval, action_url, action_body)) w))
           = stderr w @ ''got response code '' @ str_int (status_code r) @ nl
       \<and> stdout (final (job_submit env (Inr (name, start, interval, action_url, action_body)) w))
           = stdout w @ json_dumps env v @ nl
       \<and> exit_status (job_submit env (Inr (name, start, interval, action_url, action_body)) w) = 0
       \<and> stderr (final (job_list env (Inr ()) w))
           = stderr w @ ''got response code '' @ str_int (status_code r) @ nl
       \<and> stdout (final (job_list env (Inr ()) w)) = stdout w @ json_dumps env v @ nl
       \<and> exit_status (job_list env (Inr ()) w) = 0
       \<and> stderr (final (job_status env (Inr job_id) w))
           = stderr w @ ''got response code '' @ str_int (status_code r) @ nl
       \<and> stdout (final (job_status env (Inr job_id) w)) = stdout w @ json_dumps env v @ nl
       \<and> exit_status (job_status env (Inr job_id) w) = 0
       \<and> list_all is_decimal_digit (str_int (status_code r))
       \<and> decimal_value (str_int (status_code r)) = nat (status_code r)"
proof -
  from code have "0 \<le> status_code r" by simp
  then have digits: "list_all is_decimal_digit (str_int (status_code r))"
    and decimal: "decimal_value (str_int (status_code r)) = nat (status_code r)"
    by (rule str_int_decimal)+
  show ?thesis
    using code
    by (simp add: job_submit_parsed job_list_parsed job_status_parsed
        submit_run [OF body token] list_jobs_run [OF token] status_run [OF token]
        cli_main_def send_and_show_response [OF transport decoded] digits decimal)
qed

theorem error_status_reported_witness:
  "get_access_token (demo_env not_found_answer) None = Inr ''abc''
   \<and> (\<forall>rq. http (demo_env not_found_answer) rq
           = Inr \<lparr>status_code = 404, json = Inr (JObj [(''error'', JStr ''not found'')])\<rparr>)
   \<and> json_loads (demo_env not_found_answer) ''{}'' = Inr (JObj [])
   \<and> stderr (final (job_submit (demo_env not_found_answer)
         (Inr (''demo'', None, 60, demo_action_url, ''{}'')) world0))
       = ''got response code 404'' @ nl
   \<and> stdout (final (job_submit (demo_env not_found_answer)
         (Inr (''demo'', None, 60, demo_action_url, ''{}'')) world0)) = not_found_text @ nl
   \<and> exit_status (job_submit (demo_env not_found_answer)
         (Inr (''demo'', None, 60, demo_action_url, ''{}'')) world0) = 0
   \<and> stderr (final (job_list (demo_env not_found_answer) (Inr ()) world0))
       = ''got response code 404'' @ nl
   \<and> stdout (final (job_list (demo_env not_found_answer) (Inr ()) world0))
       = not_found_text @ nl
   \<and> exit_status (job_list (demo_env not_found_answer) (Inr ()) world0) = 0
   \<and> stderr (final (job_status (demo_env not_found_answer) (Inr 5) world0))
       = ''got response code 404'' @ nl
   \<and> stdout (final (job_status (demo_env not_found_answer) (Inr 5) world0))
       = not_found_text @ nl
   \<and> exit_status (job_status (demo_env not_found_answer) (Inr 5) world0) = 0
   \<and> decimal_value ''404'' = 404
   \<and> stderr (final (job_list (demo_env server_error_answer) (Inr ()) world0))
       = ''got response code 500'' @ nl
   \<and> stdout (final (job_list (demo_env server_error_answer) (Inr ()) world0)) = ''{}'' @ nl
   \<and> exit_status (job_list (demo_env server_error_answer) (Inr ()) world0) = 0"
  using error_status_reported
    [of "demo_env not_found_answer" "''abc''"
        "\<lparr>status_code = 404, json = Inr (JObj [(''error'', JStr ''not found'')])\<rparr>"
        "JObj [(''error'', JStr ''not found'')]" "''{}''" "JObj []"
        "''demo''" None 60 demo_action_url world0 5]
    error_status_reported
    [of "demo_env server_error_answer" "''abc''"
        "\<lparr>status_code = 500, json = Inr (JObj [])\<rparr>"
        "JObj []" "''{}''" "JObj []"
        "''demo''" None 60 demo_action_url world0 5]
  by (simp add: demo_env_simps not_found_answer_def server_error_answer_def
      demo_loads_empty_object world0_def str_int_404 str_int_500 demo_json_dumps_def)

text \<open>
  Claim C3, as stated: when the HTTP call completes and the body of the response is not
  valid JSON, the command prints one line \<open>error in request: <description>\<close> on the
  error stream and ends with status 1, with nothing on standard output.

  The code prints no such line: \<open>show_response\<close> is called after the \<open>try\<close> block, so
  the error raised by \<open>response.json()\<close> is not caught by the command.  For
  \<open>job list\<close> and a response of status 200 that does not decode, the command writes
  nothing at all to the error stream and ends by the uncaught exception.
\<close>

theorem undecodable_body_counterexample:
  "exit_status (job_list (demo_env html_answer) (Inr ()) world0) = 1
   \<and> traceback (job_list (demo_env html_answer) (Inr ()) world0)
       = Some (ValueError ''Expecting value: line 1 column 1 (char 0)'')
   \<and> stderr (final (job_list (demo_env html_answer) (Inr ()) world0)) = []
   \<and> \<not> prefix ''error in request: ''
         (stderr (final (job_list (demo_env html_answer) (Inr ()) world0)))"
proof -
  have token: "get_access_token (demo_env html_answer) None = Inr ''abc''"
    by (simp add: demo_env_simps)
  have answer: "http (demo_env html_answer) rq =
      Inr \<lparr>status_code = 200,
           json = Inl (ValueError ''Expecting value: line 1 column 1 (char 0)'')\<rparr>" for rq
    by (simp add: demo_env_simps html_answer_def)
  show ?thesis
    by (simp add: job_list_parsed cli_main_def list_jobs_run [OF token]
        send_and_show_undecodable [OF answer] world0_def)
qed

text \<open>
  Claim C3, amended: when the HTTP call completes and the body of the response is not
  valid JSON, the decoding error raised by \<open>response.json()\<close> (a ValueError; in later
  versions of requests also a RequestException) is not caught: the
  process ends with exit status 1 through the uncaught exception (the interpreter's
  traceback), nothing is written to standard output, and the only line the command
  writes to the error stream is \<open>got response code <status_code>\<close> when the status is
  400 or more.
\<close>

theorem undecodable_body_uncaught:
  assumes token: "get_access_token env None = Inr t"
    and transport: "\<And>rq. http env rq = Inr r"
    and undecodable: "json r = Inl e"
    and decoding: "e = ValueError m \<or> e = RequestException m"
    and body: "json_loads env action_body = Inr b"
  shows "job_submit env (Inr (name, start, interval, action_url, action_body)) w =
           \<lparr>exit_status = 1, traceback = Some e,
            final = w\<lparr>token_log := token_log w @ [None],
              http_log := http_log w @
                [\<lparr>verb = POST, url = jobs_url,
                  json_kw = Some [(''name'', PStr name),
                     (''start'', PStr (isoformat env (case start of None \<Rightarrow> now env | Some s \<Rightarrow> s))),
                     (''interval'', PInt interval),
                     (''callback_url'', PStr (geturl env action_url)),
                     (''callback_body'', PJson b)],
                  headers_kw = [(''Authorization'', ''Bearer '' @ t)],
                  timeout_kw = TIMEOUT\<rparr>],
              stderr := stderr w @ (if status_code r \<ge> 400
                              then ''got response code '' @ str_int (status_code r) @ nl
                              else [])\<rparr>\<rparr>
       \<and> job_list env (Inr ()) w =
           \<lparr>exit_status = 1, traceback = Some e,
            final = w\<lparr>token_log := token_log w @ [None],
              http_log := http_log w @
                [\<lparr>verb = GET, url = jobs_url, json_kw = None,
                  headers_kw = [(''Authorization'', ''Bearer '' @ t)],
                  timeout_kw = TIMEOUT\<rparr>],
              stderr := stderr w @ (if status_code r \<ge> 400
                              then ''got response code '' @ str_int (status_code r) @ nl
                              else [])\<rparr>\<rparr>
       \<and> job_status env (Inr job_id) w =
           \<lparr>exit_status = 1, traceback = Some e,
            final = w\<lparr>token_log := token_log w @ [None],
              http_log := http_log w @
                [\<lparr>verb = GET, url = jobs_url @ UUID_str job_id, json_kw = None,
                  headers_kw = [(''Authorization'', ''Bearer '' @ t)],
                  timeout_kw = TIMEOUT\<rparr>],
              stderr := stderr w @ (if status_code r \<ge> 400
                              then ''got response code '' @ str_int (status_code r) @ nl
                              else [])\<rparr>\<rparr>"
  using decoding
  by (auto simp: job_submit_parsed job_list_parsed job_status_parsed
      submit_run [OF body token] list_jobs_run [OF token] status_run [OF token]
      cli_main_def send_and_show_undecodable [OF transport undecodable])

theorem undecodable_body_uncaught_witness:
  "get_access_token (demo_env html_answer) None = Inr ''abc''
   \<and> (\<forall>rq. http (demo_env html_answer) rq
           = Inr \<lparr>status_code = 200,
                  json = Inl (ValueError ''Expecting value: line 1 column 1 (char 0)'')\<rparr>)
   \<and> json_loads (demo_env html_answer) ''{}'' = Inr (JObj [])
   \<and> exit_status (job_submit (demo_env html_answer)
         (Inr (''demo'', None, 60, demo_action_url, ''{}'')) world0) = 1
   \<and> stdout (final (job_submit (demo_env html_answer)
         (Inr (''demo'', None, 60, demo_action_url, ''{}'')) world0)) = []
   \<and> stderr (final (job_submit (demo_env html_answer)
         (Inr (''demo'', None, 60, demo_action_url, ''{}'')) world0)) = []
   \<and> job_list (demo_env html_answer) (Inr ()) world0 =
        \<lparr>exit_status = 1,
         traceback = Some (ValueError ''Expecting value: line 1 column 1 (char 0)''),
         final = \<lparr>stdout = [], stderr = [],
                  http_log = [\<lparr>verb = GET, url = jobs_url, json_kw = None,
                                headers_kw = [(''Authorization'', ''Bearer abc'')],
                                timeout_kw = TIMEOUT\<rparr>],
                  token_log = [None]\<rparr>\<rparr>
   \<and> exit_status (job_status (demo_env html_answer) (Inr 5) world0) = 1
   \<and> stdout (final (job_status (demo_env html_answer) (Inr 5) world0)) = []"
  using undecodable_body_uncaught
    [of "demo_env html_answer" "''abc''"
        "\<lparr>status_code = 200,
          json = Inl (ValueError ''Expecting value: line 1 column 1 (char 0)'')\<rparr>"
        "ValueError ''Expecting value: line 1 column 1 (char 0)''"
        "''Expecting value: line 1 column 1 (char 0)''" "''{}''" "JObj []"
        "''demo''" None 60 demo_action_url world0 5]
  by (simp add: demo_env_simps html_answer_def demo_loads_empty_object world0_def)

section \<open>The authorization header\<close>

text \<open>
  Claim C9: for every command run with valid arguments and a token provider that returns
  the token \<open>t\<close>, the command sends one request, whose headers are exactly
  \<open>{"Authorization": "Bearer " + t}\<close>, and calls the token provider once.
\<close>

theorem bearer_header_once:
  assumes token: "get_access_token env None = Inr t"
    and body: "json_loads env action_body = Inr b"
  shows "map headers_kw
           (http_log (final (job_submit env (Inr (name, start, interval, action_url, action_body)) w)))
           = map headers_kw (http_log w) @ [[(''Authorization'', ''Bearer '' @ t)]]
       \<and> token_log (final (job_submit env (Inr (name, start, interval, action_url, action_body)) w))
           = token_log w @ [None]
       \<and> map headers_kw (http_log (final (job_list env (Inr ()) w)))
           = map headers_kw (http_log w) @ [[(''Authorization'', ''Bearer '' @ t)]]
       \<and> token_log (final (job_list env (Inr ()) w)) = token_log w @ [None]
       \<and> map headers_kw (http_log (final (job_status env (Inr job_id) w)))
           = map headers_kw (http_log w) @ [[(''Authorization'', ''Bearer '' @ t)]]
       \<and> token_log (final (job_status env (Inr job_id) w)) = token_log w @ [None]"
  by (simp add: job_submit_parsed job_list_parsed job_status_parsed cli_main_logs
      submit_run [OF body token] list_jobs_run [OF token] status_run [OF token]
      send_and_show_logs)

theorem bearer_header_once_witness:
  "get_access_token (demo_env not_found_answer) None = Inr ''abc''
   \<and> json_loads (demo_env not_found_answer) ''{}'' = Inr (JObj [])
   \<and> map headers_kw (http_log (final (job_submit (demo_env not_found_answer)
         (Inr (''demo'', None, 60, demo_action_url, ''{}'')) world0)))
       = [[(''Authorization'', ''Bearer abc'')]]
   \<and> token_log (final (job_submit (demo_env not_found_answer)
         (Inr (''demo'', None, 60, demo_action_url, ''{}'')) world0)) = [None]
   \<and> map headers_kw (http_log (final (job_list (demo_env not_found_answer) (Inr ()) world0)))
       = [[(''Authorization'', ''Bearer abc'')]]
   \<and> token_log (final (job_list (demo_env not_found_answer) (Inr ()) world0)) = [None]
   \<and> map headers_kw (http_log (final (job_status (demo_env not_found_answer) (Inr 5) world0)))
       = [[(''Authorization'', ''Bearer abc'')]]
   \<and> token_log (final (job_status (demo_env not_found_answer) (Inr 5) world0)) = [None]"
  using bearer_header_once
    [of "demo_env not_found_answer" "''abc''" "''{}''" "JObj []"
        "''demo''" None 60 demo_action_url world0 5]
  by (simp add: demo_env_simps demo_loads_empty_object world0_def)

section \<open>The action body of \<open>submit\<close>\<close>



text \<open>
  Claim C2: \<open>submit\<close> strips one layer of surrounding quote characters from the action
  body and parses the stripped text, so that \<open>callback_body\<close> is the value of the
  stripped text.

  The code computes the stripped text and then parses the text as it was given:
  \<open>json.loads(action_body)\<close>, not \<open>json.loads(callback_body)\<close>.  For the action body
  \<open>'{"k": 1}'\<close> (with its apostrophes), whose stripped text is \<open>{"k": 1}\<close>, every
  decoder that rejects the text with the apostrophes makes \<open>submit\<close> fail with
  \<open>BadOptionUsage\<close>, and no request is sent.
\<close>

theorem submit_parses_unstripped_body:
  assumes "json_loads env quoted_k1_text = Inl (ValueError m)"
  shows "py_strip [dquote] (py_strip [apostrophe] quoted_k1_text) = k1_text
       \<and> submit env name start interval action_url quoted_k1_text w =
           (Inl (UsageError (BadOptionUsage ''action-body'')
                   (''--action-body must parse into valid JSON; got error: '' @ m)), w)
       \<and> http_log (final (job_submit env
             (Inr (name, start, interval, action_url, quoted_k1_text)) w)) = http_log w
       \<and> exit_status (job_submit env
             (Inr (name, start, interval, action_url, quoted_k1_text)) w) = 2"
  by (simp add: strip_quoted_k1 submit_rejects [OF assms] job_submit_parsed
      cli_main_def exit_code_def)

theorem submit_parses_unstripped_body_witness:
  "json_loads (demo_env not_found_answer) quoted_k1_text
      = Inl (ValueError ''Expecting value: line 1 column 1 (char 0)'')
   \<and> json_loads (demo_env not_found_answer)
        (py_strip [dquote] (py_strip [apostrophe] quoted_k1_text)) = Inr (JObj [(''k'', JInt 1)])
   \<and> fst (submit (demo_env not_found_answer) ''demo'' None 60 demo_action_url quoted_k1_text world0) =
        Inl (UsageError (BadOptionUsage ''action-body'')
           ''--action-body must parse into valid JSON; got error: Expecting value: line 1 column 1 (char 0)'')
   \<and> http_log (final (job_submit (demo_env not_found_answer)
         (Inr (''demo'', None, 60, demo_action_url, quoted_k1_text)) world0)) = []"
  using submit_parses_unstripped_body
    [of "demo_env not_found_answer" "''Expecting value: line 1 column 1 (char 0)''"
        "''demo''" None 60 demo_action_url world0]
  by (simp add: demo_env_simps demo_loads_quoted_k1 demo_loads_k1 world0_def)

section \<open>The URL parameter type\<close>

text \<open>
  Claim C6, as stated: the URL validator fails with \<open>incomplete URL\<close> when the text has no
  network-authority component; it fails with a message that contains the offending
  scheme when the scheme is not \<open>http\<close> or \<open>https\<close>; otherwise it succeeds.

  The second part does not hold for a text that has a scheme other than \<open>http\<close> and
  \<open>https\<close> and no authority: \<open>convert\<close> tests \<open>netloc\<close> first.  For
  \<open>mailto:user@example.org\<close> the scheme is \<open>mailto\<close>, and the message is
  \<open>incomplete URL\<close>, which does not contain it.
\<close>

theorem URL_scheme_message_counterexample:
  "urlparse (demo_env unreachable) ''mailto:user@example.org'' =
     Inr \<lparr>scheme = ''mailto'', netloc = [], path = ''user@example.org'',
          params = [], query = [], fragment = []\<rparr>
   \<and> URL_convert (demo_env unreachable) (Inl ''mailto:user@example.org'') =
       Inl (UsageError BadParameter ''incomplete URL'')
   \<and> \<not> sublist ''mailto'' ''incomplete URL''"
  by (simp add: demo_env_simps demo_urlparse_mailto URL_convert_def fail_def
      mailto_not_in_message)

text \<open>
  Claim C6, amended: for every text that \<open>urlparse\<close> splits into components, the
  validator fails with \<open>incomplete URL\<close> when the text has no network-authority
  component; when it has one and the scheme is not exactly \<open>http\<close> or \<open>https\<close>, it fails
  with a message that contains the scheme; otherwise it returns the parsed structure,
  and \<open>submit\<close> sends \<open>geturl()\<close> of that structure as \<open>callback_url\<close>.
\<close>

theorem URL_convert_cases:
  assumes "urlparse env text = Inr p"
  shows "(netloc p = [] \<longrightarrow>
            URL_convert env (Inl text) = Inl (UsageError BadParameter ''incomplete URL''))
       \<and> (netloc p \<noteq> [] \<and> scheme p \<noteq> ''http'' \<and> scheme p \<noteq> ''https'' \<longrightarrow>
            URL_convert env (Inl text) =
              Inl (UsageError BadParameter
                     (''invalid URL scheme ('' @ scheme p @ ''). Only HTTP URLs are allowed''))
            \<and> sublist (scheme p)
                 (''invalid URL scheme ('' @ scheme p @ ''). Only HTTP URLs are allowed''))
       \<and> (netloc p \<noteq> [] \<and> (scheme p = ''http'' \<or> scheme p = ''https'') \<longrightarrow>
            URL_convert env (Inl text) = Inr p
            \<and> (json_loads env action_body = Inr b \<and> get_access_token env None = Inr t \<longrightarrow>
                 map json_kw (http_log (final (job_submit env
                     (Inr (name, start, interval, p, action_body)) w))) =
                 map json_kw (http_log w) @
                   [Some [(''name'', PStr name),
                          (''start'', PStr (isoformat env
                              (case start of None \<Rightarrow> now env | Some s \<Rightarrow> s))),
                          (''interval'', PInt interval),
                          (''callback_url'', PStr (geturl env p)),
                          (''callback_body'', PJson b)]]))"
proof (intro conjI impI)
  assume "netloc p = []"
  then show "URL_convert env (Inl text) = Inl (UsageError BadParameter ''incomplete URL'')"
    using assms by (simp add: URL_convert_def fail_def)
next
  assume other: "netloc p \<noteq> [] \<and> scheme p \<noteq> ''http'' \<and> scheme p \<noteq> ''https''"
  then show "URL_convert env (Inl text) =
              Inl (UsageError BadParameter
                     (''invalid URL scheme ('' @ scheme p @ ''). Only HTTP URLs are allowed''))"
    using assms by (simp add: URL_convert_def fail_def)
  show "sublist (scheme p)
          (''invalid URL scheme ('' @ scheme p @ ''). Only HTTP URLs are allowed'')"
    by (rule sublist_appendI)
next
  assume http: "netloc p \<noteq> [] \<and> (scheme p = ''http'' \<or> scheme p = ''https'')"
  then show "URL_convert env (Inl text) = Inr p"
    using assms by (auto simp: URL_convert_def)
next
  assume "json_loads env action_body = Inr b \<and> get_access_token env None = Inr t"
  then have body: "json_loads env action_body = Inr b"
    and token: "get_access_token env None = Inr t"
    by simp_all
  show "map json_kw (http_log (final (job_submit env
            (Inr (name, start, interval, p, action_body)) w))) =
        map json_kw (http_log w) @
          [Some [(''name'', PStr name),
                 (''start'', PStr (isoformat env (case start of None \<Rightarrow> now env | Some s \<Rightarrow> s))),
                 (''interval'', PInt interval),
                 (''callback_url'', PStr (geturl env p)),
                 (''callback_body'', PJson b)]]"
    by (rule submit_payload_logged [OF body token])
qed

theorem URL_convert_cases_witness:
  "urlparse (demo_env unreachable) ''https://example.org/run'' = Inr demo_action_url
   \<and> URL_convert (demo_env unreachable) (Inl ''https://example.org/run'') = Inr demo_action_url
   \<and> json_loads (demo_env unreachable) ''{}'' = Inr (JObj [])
   \<and> get_access_token (demo_env unreachable) None = Inr ''abc''
   \<and> map json_kw (http_log (final (job_submit (demo_env unreachable)
         (Inr (''demo'', None, 60, demo_action_url, ''{}'')) world0))) =
       [Some [(''name'', PStr ''demo''),
              (''start'', PStr ''2024-05-01T12:00:00''),
              (''interval'', PInt 60),
              (''callback_url'', PStr ''https://example.org/run''),
              (''callback_body'', PJson (JObj []))]]
   \<and> URL_convert (demo_env unreachable) (Inl ''ftp://example.org/run'') =
       Inl (UsageError BadParameter ''invalid URL scheme (ftp). Only HTTP URLs are allowed'')
   \<and> sublist ''ftp'' (''invalid URL scheme ('' @ ''ftp'' @ ''). Only HTTP URLs are allowed'')
   \<and> URL_convert (demo_env unreachable) (Inl ''mailto:user@example.org'') =
       Inl (UsageError BadParameter ''incomplete URL'')"
proof -
  have https: "urlparse (demo_env unreachable) ''https://example.org/run'' = Inr demo_action_url"
    by (simp add: demo_env_simps demo_urlparse_https)
  have ftp: "urlparse (demo_env unreachable) ''ftp://example.org/run'' =
      Inr \<lparr>scheme = ''ftp'', netloc = ''example.org'', path = ''/run'',
           params = [], query = [], fragment = []\<rparr>"
    by (simp add: demo_env_simps demo_urlparse_ftp)
  have mailto: "urlparse (demo_env unreachable) ''mailto:user@example.org'' =
      Inr \<lparr>scheme = ''mailto'', netloc = [], path = ''user@example.org'',
           params = [], query = [], fragment = []\<rparr>"
    by (simp add: demo_env_simps demo_urlparse_mailto)
  have body: "json_loads (demo_env unreachable) ''{}'' = Inr (JObj [])"
    by (simp add: demo_env_simps demo_loads_empty_object)
  have token: "get_access_token (demo_env unreachable) None = Inr ''abc''"
    by (simp add: demo_env_simps)
  have accepted:
    "URL_convert (demo_env unreachable) (Inl ''https://example.org/run'') = Inr demo_action_url
     \<and> map json_kw (http_log (final (job_submit (demo_env unreachable)
         (Inr (''demo'', None, 60, demo_action_url, ''{}'')) world0))) =
       [Some [(''name'', PStr ''demo''),
              (''start'', PStr ''2024-05-01T12:00:00''),
              (''interval'', PInt 60),
              (''callback_url'', PStr ''https://example.org/run''),
              (''callback_body'', PJson (JObj []))]]"
    using URL_convert_cases [OF https, of "''{}''" "JObj []" "''abc''" "''demo''" None 60 world0]
      body token
    by (simp add: demo_action_url_def demo_env_simps demo_geturl_def world0_def)
  have scheme_rejected:
    "URL_convert (demo_env unreachable) (Inl ''ftp://example.org/run'') =
       Inl (UsageError BadParameter ''invalid URL scheme (ftp). Only HTTP URLs are allowed'')"
    using URL_convert_cases [OF ftp] by simp
  have scheme_named:
    "sublist ''ftp'' (''invalid URL scheme ('' @ ''ftp'' @ ''). Only HTTP URLs are allowed'')"
    using URL_convert_cases [OF ftp] by (simp del: append.simps)
  have incomplete:
    "URL_convert (demo_env unreachable) (Inl ''mailto:user@example.org'') =
       Inl (UsageError BadParameter ''incomplete URL'')"
    using URL_convert_cases [OF mailto] by simp
  from https accepted body token scheme_rejected scheme_named incomplete show ?thesis
    by blast
qed

section \<open>The request of \<open>status\<close>\<close>

text \<open>
  Claim C10: for every text that \<open>status\<close> accepts as a UUID, the URL of the request is
  the jobs endpoint followed by \<open>str\<close> of the UUID, which is its canonical rendering:
  lower-case hexadecimal digits in the groups 8-4-4-4-12, joined by hyphens.  The
  rendering is a spelling of the same UUID (the constructor reads it back as \<open>u\<close>), and
  so are the rendering in upper case, in braces, with the prefix \<open>urn:uuid:\<close> and without
  its hyphens: each of them, and any two texts that the constructor reads as \<open>u\<close>, give
  the same URL.
\<close>

theorem status_url_canonical:
  assumes first: "UUID env v1 = Inr u"
    and second: "UUID env v2 = Inr u"
    and token: "get_access_token env None = Inr t"
  shows "map url (http_log (final (job_status env (status_make_context env (Some v1)) w))) =
           map url (http_log w) @ [jobs_url @ UUID_str u]
       \<and> map url (http_log (final (job_status env (status_make_context env (Some v2)) w))) =
           map url (http_log (final (job_status env (status_make_context env (Some v1)) w)))
       \<and> canonical_uuid_text (UUID_str u)
       \<and> UUID env (UUID_str u) = Inr u
       \<and> UUID env (py_upper (UUID_str u)) = Inr u
       \<and> UUID env (''{'' @ UUID_str u @ ''}'') = Inr u
       \<and> UUID env (''urn:uuid:'' @ UUID_str u) = Inr u
       \<and> UUID env (py_remove ''-'' (UUID_str u)) = Inr u
       \<and> map url (http_log (final (job_status env
             (status_make_context env (Some (py_upper (UUID_str u)))) w))) =
           map url (http_log w) @ [jobs_url @ UUID_str u]
       \<and> map url (http_log (final (job_status env
             (status_make_context env (Some (''{'' @ UUID_str u @ ''}''))) w))) =
           map url (http_log w) @ [jobs_url @ UUID_str u]
       \<and> map url (http_log (final (job_status env
             (status_make_context env (Some (''urn:uuid:'' @ UUID_str u))) w))) =
           map url (http_log w) @ [jobs_url @ UUID_str u]
       \<and> map url (http_log (final (job_status env
             (status_make_context env (Some (py_remove ''-'' (UUID_str u)))) w))) =
           map url (http_log w) @ [jobs_url @ UUID_str u]"
proof -
  have range: "u < 2 ^ 128"
    by (rule UUID_range [OF first])
  have canonical: "canonical_uuid_text (UUID_str u)"
    by (rule UUID_str_canonical [OF range])
  have same: "UUID env (UUID_str u) = Inr u"
    by (rule UUID_parses_its_text [OF range])
  have upper: "UUID env (py_upper (UUID_str u)) = Inr u"
    by (rule UUID_parses_upper [OF range])
  have braced: "UUID env (''{'' @ UUID_str u @ ''}'') = Inr u"
    by (rule UUID_parses_braced [OF range])
  have urn: "UUID env (''urn:uuid:'' @ UUID_str u) = Inr u"
    by (rule UUID_parses_urn [OF range])
  have plain: "UUID env (py_remove ''-'' (UUID_str u)) = Inr u"
    by (rule UUID_parses_unhyphenated [OF range])
  note urls = status_request_url [OF first token, of w] status_request_url [OF second token, of w]
    status_request_url [OF upper token, of w] status_request_url [OF braced token, of w]
    status_request_url [OF urn token, of w] status_request_url [OF plain token, of w]
  from urls canonical same upper braced urn plain show ?thesis
    by (simp only: simp_thms)
qed

theorem status_url_canonical_witness:
  "UUID (demo_env not_found_answer) ''12345678-1234-5678-1234-567812ABCDEF'' = Inr demo_uuid
   \<and> UUID (demo_env not_found_answer) ''{12345678-1234-5678-1234-567812abcdef}'' = Inr demo_uuid
   \<and> UUID (demo_env not_found_answer) ''urn:uuid:12345678-1234-5678-1234-567812abcdef''
       = Inr demo_uuid
   \<and> UUID (demo_env not_found_answer) ''12345678123456781234567812abcdef'' = Inr demo_uuid
   \<and> UUID (demo_env not_found_answer) ''12345678-1234-5678-1234-567812abcdef'' = Inr demo_uuid
   \<and> get_access_token (demo_env not_found_answer) None = Inr ''abc''
   \<and> UUID_str demo_uuid = ''12345678-1234-5678-1234-567812abcdef''
   \<and> map url (http_log (final (job_status (demo_env not_found_answer)
         (status_make_context (demo_env not_found_answer)
            (Some ''12345678-1234-5678-1234-567812ABCDEF'')) world0))) =
       [jobs_url @ ''12345678-1234-5678-1234-567812abcdef'']
   \<and> map url (http_log (final (job_status (demo_env not_found_answer)
         (status_make_context (demo_env not_found_answer)
            (Some ''{12345678-1234-5678-1234-567812abcdef}'')) world0))) =
       [jobs_url @ ''12345678-1234-5678-1234-567812abcdef'']
   \<and> map url (http_log (final (job_status (demo_env not_found_answer)
         (status_make_context (demo_env not_found_answer)
            (Some ''urn:uuid:12345678-1234-5678-1234-567812abcdef'')) world0))) =
       [jobs_url @ ''12345678-1234-5678-1234-567812abcdef'']
   \<and> map url (http_log (final (job_status (demo_env not_found_answer)
         (status_make_context (demo_env not_found_answer)
            (Some ''12345678123456781234567812abcdef'')) world0))) =
       [jobs_url @ ''12345678-1234-5678-1234-567812abcdef'']
   \<and> canonical_uuid_text ''12345678-1234-5678-1234-567812abcdef''
   \<and> UUID (demo_env not_found_answer) ''000000000000000000000000000000FF'' = Inr 255
   \<and> UUID (demo_env not_found_answer) ''urn:uuid:00000000-0000-0000-0000-0000000000ff''
       = Inr 255
   \<and> UUID_str 255 = ''00000000-0000-0000-0000-0000000000ff''
   \<and> map url (http_log (final (job_status (demo_env not_found_answer)
         (status_make_context (demo_env not_found_answer)
            (Some ''000000000000000000000000000000FF'')) world0))) =
       [jobs_url @ ''00000000-0000-0000-0000-0000000000ff'']
   \<and> map url (http_log (final (job_status (demo_env not_found_answer)
         (status_make_context (demo_env not_found_answer)
            (Some ''urn:uuid:00000000-0000-0000-0000-0000000000ff'')) world0))) =
       [jobs_url @ ''00000000-0000-0000-0000-0000000000ff'']"
proof -
  have token: "get_access_token (demo_env not_found_answer) None = Inr ''abc''"
    by (simp add: demo_env_simps)
  note upper = demo_uuid_uppercase_spelling [of "demo_env not_found_answer"]
  note braced = demo_uuid_braced_spelling [of "demo_env not_found_answer"]
  note urn = demo_uuid_urn_spelling [of "demo_env not_found_answer"]
  note plain = demo_uuid_unhyphenated_spelling [of "demo_env not_found_answer"]
  note canon = demo_uuid_canonical_spelling [of "demo_env not_found_answer"]
  note ff = second_uuid_spellings [of "demo_env not_found_answer"]
  have unhyphenated: "py_remove ''-'' ''12345678-1234-5678-1234-567812abcdef''
      = ''12345678123456781234567812abcdef''"
    by simp
  from status_url_canonical [OF upper braced token, of world0]
       status_url_canonical [OF ff token, of world0]
       upper braced urn plain canon token ff
  show ?thesis
    by (simp add: demo_uuid_str second_uuid_str demo_uuid_upper unhyphenated world0_def)
qed

end
